theory Spec2Isabelle
  imports Main "HOL-Library.Word"
begin

unbundle bit_operations_syntax

section \<open>JavaScript values used by the wallet services\<close>

text \<open>
  A JavaScript string is a sequence of UTF-16 code units; \<open>charCodeAt\<close> reads one of them.
  String literals of the source are written \<open>lit ''...''\<close>.
\<close>

type_synonym js_string = "16 word list"

definition lit :: "string \<Rightarrow> js_string" where
  "lit s = map of_char s"

text \<open>
  The fields of the decoded OAuth claim have type \<open>any\<close>. The values that reach the code
  modelled here are \<open>undefined\<close>, \<open>null\<close>, strings and integer-valued numbers (a GitHub
  \<open>id\<close>).
\<close>

datatype jsval = Undefined | Null | Str js_string | Num int

text \<open>Truthiness, as tested by \<open>||\<close> and \<open>!\<close>.\<close>

fun truthy :: "jsval \<Rightarrow> bool" where
  "truthy Undefined = False"
| "truthy Null = False"
| "truthy (Str s) = (s \<noteq> [])"
| "truthy (Num n) = (n \<noteq> 0)"

definition js_or :: "jsval \<Rightarrow> jsval \<Rightarrow> jsval" where
  "js_or a b = (if truthy a then a else b)"

text \<open>\<open>Number.prototype.toString(radix)\<close> on a non-negative integer: no leading zeros.\<close>

definition digit_unit :: "nat \<Rightarrow> 16 word" where
  "digit_unit d = (if d < 10 then 48 + of_nat d else 87 + of_nat d)"

fun toStringRadix :: "nat \<Rightarrow> nat \<Rightarrow> js_string" where
  "toStringRadix b n =
     (if b < 2 \<or> n < b then [digit_unit n]
      else toStringRadix b (n div b) @ [digit_unit (n mod b)])"

declare toStringRadix.simps [simp del]

definition toString_int :: "int \<Rightarrow> js_string" where
  "toString_int i =
     (if i < 0 then lit ''-'' @ toStringRadix 10 (nat (- i)) else toStringRadix 10 (nat i))"

text \<open>The string a template literal \<open>`${v}`\<close> inserts for a value.\<close>

fun template :: "jsval \<Rightarrow> js_string" where
  "template Undefined = lit ''undefined''"
| "template Null = lit ''null''"
| "template (Str s) = s"
| "template (Num n) = toString_int n"

definition padStart :: "nat \<Rightarrow> 16 word \<Rightarrow> js_string \<Rightarrow> js_string" where
  "padStart n c s = replicate (n - length s) c @ s"

definition repeat :: "nat \<Rightarrow> js_string \<Rightarrow> js_string" where
  "repeat n s = concat (replicate n s)"

section \<open>HybridWalletService: deterministic key derivation\<close>

record user_data =
  sub :: jsval
  id_field :: jsval
  email :: jsval
  login :: jsval
  name :: jsval
  picture :: jsval

text \<open>
  One round of the rolling hash: \<open>hash = (hash << 5) - hash + char; hash = hash & hash\<close>.
  \<open>hash\<close> is an int32 at the start of every round, so the shift, the subtraction and the
  addition are exact and \<open>& hash\<close> reduces the result to 32 bits again: the round is
  arithmetic on a 32-bit word, read as signed by \<open>sint\<close>.
\<close>

definition hash_round :: "32 word \<Rightarrow> 16 word \<Rightarrow> 32 word" where
  "hash_round h c = push_bit 5 h - h + ucast c"

fun hash_loop :: "32 word \<Rightarrow> js_string \<Rightarrow> 32 word" where
  "hash_loop h [] = h"
| "hash_loop h (c # cs) = hash_loop (hash_round h c) cs"

definition identity_string :: "user_data \<Rightarrow> js_string \<Rightarrow> js_string" where
  "identity_string userData provider =
     provider @ lit ''-'' @ template (js_or (sub userData) (id_field userData)) @ lit ''-''
       @ template (email userData)"

definition createDeterministicSeed :: "user_data \<Rightarrow> js_string \<Rightarrow> js_string" where
  "createDeterministicSeed userData provider =
     (let hash = hash_loop 0 (identity_string userData provider)
      in take 64 (repeat 4 (padStart 16 48 (toStringRadix 16 (nat \<bar>sint hash\<bar>)))))"

text \<open>
  \<open>seed.match(/.{1,2}/g)\<close>: the seed cut into pairs of code units, the last one possibly
  single; \<open>null\<close> (here \<open>None\<close>) for the empty string, on which \<open>.map\<close> then throws.
  The seeds of \<open>createDeterministicSeed\<close> hold hexadecimal digits only, so the line
  terminators that \<open>.\<close> refuses do not occur.
\<close>

fun pairs :: "js_string \<Rightarrow> js_string list" where
  "pairs (a # b # cs) = [a, b] # pairs cs"
| "pairs [a] = [[a]]"
| "pairs [] = []"

definition match_pairs :: "js_string \<Rightarrow> js_string list option" where
  "match_pairs seed = (if seed = [] then None else Some (pairs seed))"

definition hex_value :: "16 word \<Rightarrow> nat option" where
  "hex_value c =
     (if 48 \<le> c \<and> c \<le> 57 then Some (unat c - 48)
      else if 97 \<le> c \<and> c \<le> 102 then Some (unat c - 87)
      else if 65 \<le> c \<and> c \<le> 70 then Some (unat c - 55)
      else None)"

text \<open>
  \<open>parseInt(byte, 16)\<close> reads the longest prefix of hexadecimal digits; \<open>None\<close> is \<open>NaN\<close>.
\<close>

fun hex_prefix :: "nat \<Rightarrow> js_string \<Rightarrow> nat" where
  "hex_prefix acc [] = acc"
| "hex_prefix acc (c # cs) =
     (case hex_value c of None \<Rightarrow> acc | Some d \<Rightarrow> hex_prefix (16 * acc + d) cs)"

definition parseInt16 :: "js_string \<Rightarrow> nat option" where
  "parseInt16 s =
     (case s of [] \<Rightarrow> None
      | c # cs \<Rightarrow> (case hex_value c of None \<Rightarrow> None | Some d \<Rightarrow> Some (hex_prefix d cs)))"

text \<open>Storing a number in a \<open>Uint8Array\<close>: \<open>NaN\<close> becomes 0, an integer is reduced modulo 256.\<close>

definition to_uint8 :: "nat option \<Rightarrow> 8 word" where
  "to_uint8 v = (case v of None \<Rightarrow> 0 | Some n \<Rightarrow> of_nat n)"

text \<open>
  The key pair is given by its 32-byte secret key. \<open>seedBytes[i % seedBytes.length]\<close> is
  always in range, since \<open>seedBytes\<close> is not empty when the match succeeded.
\<close>

definition createKeypairFromSeed :: "js_string \<Rightarrow> 8 word list option" where
  "createKeypairFromSeed seed =
     (case match_pairs seed of
        None \<Rightarrow> None
      | Some ps \<Rightarrow>
          (let seedBytes = map (\<lambda>byte. to_uint8 (parseInt16 byte)) ps
           in Some (map (\<lambda>i. seedBytes ! (i mod length seedBytes)) [0..<32])))"

text \<open>
  The wallet of \<open>handleOAuthCallback\<close>: seed, key pair, and the address the Sui library
  computes from the key (\<open>getPublicKey().toSuiAddress()\<close>, a parameter here).
\<close>

definition deriveWallet ::
  "(8 word list \<Rightarrow> js_string) \<Rightarrow> user_data \<Rightarrow> js_string \<Rightarrow> (8 word list \<times> js_string) option" where
  "deriveWallet toSuiAddress userData provider =
     (case createKeypairFromSeed (createDeterministicSeed userData provider) of
        None \<Rightarrow> None
      | Some key \<Rightarrow> Some (key, toSuiAddress key))"

section \<open>JavaScript numbers\<close>

text \<open>
  A \<open>Number\<close> is an IEEE 754 double. A finite double is \<open>Fin m e\<close>, the number
  \<open>m * 2 ^ e\<close>; the same number can have several such forms, and every operation below
  depends on the number only. The sign of zero is not kept: none of the operations used here
  tells \<open>-0\<close> from \<open>0\<close>, except \<open>toFixed\<close> printing a sign for a negative number
  that rounds to zero, which is kept.
\<close>

datatype number = NaN | PosInf | NegInf | Fin int int

fun bit_length :: "nat \<Rightarrow> int" where
  "bit_length n = (if n = 0 then 0 else 1 + bit_length (n div 2))"

declare bit_length.simps [simp del]

text \<open>\<open>p / d\<close> rounded to the nearest integer, ties to the even one (\<open>0 \<le> p\<close>, \<open>0 < d\<close>).\<close>

definition round_half_even :: "int \<Rightarrow> int \<Rightarrow> int" where
  "round_half_even p d =
     (let q = p div d; r = p mod d
      in if 2 * r < d then q else if d < 2 * r then q + 1 else if even q then q else q + 1)"

text \<open>
  The double nearest to \<open>p / d\<close> for \<open>0 < p\<close> and \<open>0 < d\<close>, as mantissa and exponent:
  \<open>e\<close> is the binary exponent of \<open>p / d\<close> (\<open>2 ^ e \<le> p / d < 2 ^ (e + 1)\<close>), \<open>u\<close> the
  exponent of the unit in the last place (53 significant bits, subnormal below \<open>2 ^ -1022\<close>),
  \<open>m\<close> the mantissa rounded to nearest, ties to even. \<open>None\<close> is overflow to infinity.
\<close>

definition fl_pos :: "int \<Rightarrow> int \<Rightarrow> (int \<times> int) option" where
  "fl_pos p d =
     (let e0 = bit_length (nat p) - bit_length (nat d);
          e = (if (if 0 \<le> e0 then d * 2 ^ nat e0 \<le> p else d \<le> p * 2 ^ nat (- e0))
               then e0 else e0 - 1);
          u = max e (- 1022) - 52;
          m = (if 0 \<le> u then round_half_even p (d * 2 ^ nat u)
               else round_half_even (p * 2 ^ nat (- u)) d)
      in if 971 < u \<or> (u = 971 \<and> 2 ^ 53 \<le> m) then None else Some (m, u))"

text \<open>An integer-valued result is written with exponent 0 when its mantissa allows it.\<close>

definition mk_fin :: "int \<Rightarrow> int \<Rightarrow> number" where
  "mk_fin m u =
     (if u < 0 \<and> m mod 2 ^ nat (- u) = 0 then Fin (m div 2 ^ nat (- u)) 0 else Fin m u)"

text \<open>The double nearest to the fraction \<open>p / d\<close>, for \<open>0 < d\<close>.\<close>

definition fl :: "int \<Rightarrow> int \<Rightarrow> number" where
  "fl p d =
     (if p = 0 then Fin 0 0
      else if 0 < p then (case fl_pos p d of None \<Rightarrow> PosInf | Some (m, u) \<Rightarrow> mk_fin m u)
      else (case fl_pos (- p) d of None \<Rightarrow> NegInf | Some (m, u) \<Rightarrow> mk_fin (- m) u))"

text \<open>\<open>Number(b)\<close> for a \<open>BigInt\<close> \<open>b\<close>, and for the decimal string of a natural number.\<close>

definition Number_of_bigint :: "int \<Rightarrow> number" where
  "Number_of_bigint b = fl b 1"

text \<open>\<open>x / c\<close> and \<open>x * c\<close> for a positive integer constant \<open>c\<close>.\<close>

definition js_div :: "number \<Rightarrow> int \<Rightarrow> number" where
  "js_div x c =
     (case x of
        Fin m e \<Rightarrow> (if 0 \<le> e then fl (m * 2 ^ nat e) c else fl m (c * 2 ^ nat (- e)))
      | _ \<Rightarrow> x)"

definition js_mul :: "number \<Rightarrow> int \<Rightarrow> number" where
  "js_mul x c =
     (case x of
        Fin m e \<Rightarrow> (if 0 \<le> e then fl (m * c * 2 ^ nat e) 1 else fl (m * c) (2 ^ nat (- e)))
      | _ \<Rightarrow> x)"

fun js_neg :: "number \<Rightarrow> number" where
  "js_neg NaN = NaN"
| "js_neg PosInf = NegInf"
| "js_neg NegInf = PosInf"
| "js_neg (Fin m e) = Fin (- m) e"

fun js_add :: "number \<Rightarrow> number \<Rightarrow> number" where
  "js_add (Fin m e) (Fin n f) =
     (let k = min e f; s = m * 2 ^ nat (e - k) + n * 2 ^ nat (f - k)
      in if 0 \<le> k then fl (s * 2 ^ nat k) 1 else fl s (2 ^ nat (- k)))"
| "js_add NaN _ = NaN"
| "js_add _ NaN = NaN"
| "js_add PosInf NegInf = NaN"
| "js_add NegInf PosInf = NaN"
| "js_add PosInf _ = PosInf"
| "js_add _ PosInf = PosInf"
| "js_add NegInf _ = NegInf"
| "js_add _ NegInf = NegInf"

definition js_sub :: "number \<Rightarrow> number \<Rightarrow> number" where
  "js_sub x y = js_add x (js_neg y)"

text \<open>\<open>x > y\<close>: false as soon as one side is \<open>NaN\<close>.\<close>

fun js_gt :: "number \<Rightarrow> number \<Rightarrow> bool" where
  "js_gt (Fin m e) (Fin n f) = (let k = min e f in n * 2 ^ nat (f - k) < m * 2 ^ nat (e - k))"
| "js_gt NaN _ = False"
| "js_gt _ NaN = False"
| "js_gt PosInf PosInf = False"
| "js_gt PosInf _ = True"
| "js_gt _ PosInf = False"
| "js_gt NegInf _ = False"
| "js_gt _ NegInf = True"

text \<open>\<open>x === 0\<close>.\<close>

fun is_zero :: "number \<Rightarrow> bool" where
  "is_zero (Fin m e) = (m = 0)"
| "is_zero _ = False"

fun js_floor :: "number \<Rightarrow> number" where
  "js_floor (Fin m e) = (if 0 \<le> e then Fin m e else Fin (m div 2 ^ nat (- e)) 0)"
| "js_floor x = x"

text \<open>
  \<open>x.toFixed(f)\<close>: the integer \<open>n\<close> nearest to \<open>|x| * 10 ^ f\<close> (the larger one on a tie),
  printed with \<open>f\<close> decimals. From \<open>10 ^ 21\<close> on JavaScript prints in exponent notation
  instead; a balance of that size is beyond any ledger state, and the digits are printed
  here all the same.
\<close>

definition toFixed :: "nat \<Rightarrow> number \<Rightarrow> js_string" where
  "toFixed f x =
     (case x of
        NaN \<Rightarrow> lit ''NaN''
      | PosInf \<Rightarrow> lit ''Infinity''
      | NegInf \<Rightarrow> lit ''-Infinity''
      | Fin m e \<Rightarrow>
          (let a = \<bar>m\<bar> * 10 ^ f;
               n = nat (if 0 \<le> e then a * 2 ^ nat e
                        else (2 * a + 2 ^ nat (- e)) div 2 ^ nat (1 - e))
           in (if m < 0 then lit ''-'' else []) @ toStringRadix 10 (n div 10 ^ f) @ lit ''.''
                @ padStart f 48 (toStringRadix 10 (n mod 10 ^ f))))"

definition is_digit :: "16 word \<Rightarrow> bool" where
  "is_digit c = (48 \<le> c \<and> c \<le> 57)"

definition digits_value :: "js_string \<Rightarrow> int" where
  "digits_value ds = foldl (\<lambda>acc c. 10 * acc + (uint c - 48)) 0 ds"

text \<open>
  \<open>parseFloat\<close> on the strings the balance query returns: an optional sign, then
  \<open>Infinity\<close> or decimal digits with an optional fraction; what follows is ignored, and a
  string with no digits is \<open>NaN\<close>. Leading white space, a \<open>+\<close> sign and exponent parts, which
  \<open>toFixed\<close> never prints, are not read.
\<close>

definition parseFloat :: "js_string \<Rightarrow> number" where
  "parseFloat s =
     (let neg = (take 1 s = lit ''-'');
          r = (if neg then drop 1 s else s)
      in if take 8 r = lit ''Infinity'' then (if neg then NegInf else PosInf)
         else
           let ip = takeWhile is_digit r;
               rest = dropWhile is_digit r;
               fp = (if take 1 rest = lit ''.'' then takeWhile is_digit (drop 1 rest) else [])
           in if ip = [] \<and> fp = [] then NaN
              else
                let p = digits_value (ip @ fp)
                in fl (if neg then - p else p) (10 ^ length fp))"

section \<open>Errors, browser storage and the ledger client\<close>

text \<open>
  The errors thrown inside the services, one constructor for each \<open>throw new Error(...)\<close>
  of the modelled code; \<open>Thrown\<close> is an error raised by an external call (the ledger client,
  the signing library), with its message.
\<close>

datatype error =
    NotAuthenticated
  | NoSui
  | InsufficientBalance
  | NoCoinsFound
  | MergeNotImplemented
  | MissingKeyOrProof
  | SigningFailed
  | RangeError
  | Thrown js_string

text \<open>\<open>BigInt(x)\<close> for a number: a \<open>RangeError\<close> unless \<open>x\<close> is an integer.\<close>

fun BigInt_of_number :: "number \<Rightarrow> error + int" where
  "BigInt_of_number (Fin m e) =
     (if 0 \<le> e then Inr (m * 2 ^ nat e)
      else if m mod 2 ^ nat (- e) = 0 then Inr (m div 2 ^ nat (- e))
      else Inl RangeError)"
| "BigInt_of_number _ = Inl RangeError"

text \<open>
  \<open>localStorage\<close> and \<open>sessionStorage\<close> map keys to strings. \<open>removeItem\<close> deletes one
  key, \<open>clear\<close> all of them.
\<close>

type_synonym storage = "js_string \<rightharpoonup> js_string"

record browser =
  localStorage :: storage
  sessionStorage :: storage

text \<open>\<open>!s\<close> for a value that is a string or \<open>null\<close>: true for \<open>null\<close> and for \<open>""\<close>.\<close>

definition absent :: "js_string option \<Rightarrow> bool" where
  "absent v = (case v of None \<Rightarrow> True | Some s \<Rightarrow> s = [])"

record coin =
  coinObjectId :: js_string
  balance :: nat

datatype tx_arg = Object js_string | Result nat

datatype command =
    SplitCoins tx_arg "int list"
  | TransferObjects "tx_arg list" js_string

record transaction =
  commands :: "command list"
  sender :: "js_string option"
  gasPrice :: "nat option"
  gasBudget :: "nat option"

record gas_summary =
  computationCost :: nat
  storageCost :: nat
  storageRebate :: nat

record response =
  digest :: js_string
  status :: "js_string option"
  gasUsed :: "gas_summary option"

text \<open>
  An element of an object-change list. \<open>object_data\<close> is \<open>change.object.data\<close> when
  \<open>object\<close>, \<open>data\<close>, \<open>data.type\<close> and \<open>data.fields\<close> are all present; \<open>balance_field\<close> is
  the number \<open>Number(fields.balance || fields.value || fields.amount)\<close> when that field is
  present and its number is not \<open>NaN\<close>.
\<close>

record coin_data =
  data_type :: js_string
  balance_field :: "number option"

record object_change =
  change_type :: js_string
  objectType :: "js_string option"
  owner :: "js_string option"
  object_data :: "coin_data option"

text \<open>
  A transaction block of a history query: \<open>tx.digest\<close>, \<open>tx.transaction?.data?.sender\<close>,
  \<open>tx.timestampMs\<close>, \<open>tx.effects?.status?.status\<close>, \<open>tx.objectChanges\<close> (\<open>None\<close> when it is
  not an array) and \<open>tx.effects?.objectChanges || []\<close>. \<open>amountMatch\<close> is what the regular
  expression \<open>/"amount":(\d+)/\<close> captures in the serialised transaction input, when it
  matches.
\<close>

record tx_block =
  tx_digest :: js_string
  tx_sender :: "js_string option"
  timestampMs :: "nat option"
  tx_status :: "js_string option"
  objectChanges :: "object_change list option"
  effects_objectChanges :: "object_change list"
  amountMatch :: "nat option"

record ZkProof =
  proofPoints_a :: "js_string list"
  proofPoints_b :: "js_string list list"
  proofPoints_c :: "js_string list"
  issBase64Details_value :: js_string
  issBase64Details_indexMod4 :: nat
  headerBase64 :: js_string
  addressSeed :: js_string

datatype filter = FromAddress js_string | ToAddress js_string | FromOrToAddress js_string

text \<open>
  The external collaborators: the answers of the ledger client (an error when the call
  throws), the Sui transaction and signing library, and the locale-dependent date
  rendering. \<open>getCoins\<close> gives \<open>coins.data\<close>, the coins of the one page the ledger answers
  with. \<open>tx.splitCoins\<close> and \<open>tx.transferObjects\<close> encode the amount (as a \<open>u64\<close>) and the
  recipient (as an address) when they are called and throw when they cannot: \<open>pure_u64\<close>
  and \<open>pure_address\<close> give the error thrown, \<open>None\<close> for a value the library accepts.
  \<open>epoch\<close> is the ledger's current epoch.
\<close>

record env =
  getCoins :: "js_string \<Rightarrow> error + coin list"
  getBalance :: "js_string \<Rightarrow> error + nat"
  getReferenceGasPrice :: "error + nat"
  pure_u64 :: "int \<Rightarrow> error option"
  pure_address :: "js_string \<Rightarrow> error option"
  build :: "transaction \<Rightarrow> error + 8 word list"
  sign :: "8 word list \<Rightarrow> 8 word list \<Rightarrow> error + js_string"
  getZkLoginSignature :: "ZkProof \<Rightarrow> nat option \<Rightarrow> js_string \<Rightarrow> error + js_string"
  executeTransactionBlock :: "8 word list \<Rightarrow> js_string \<Rightarrow> error + response"
  queryTransactionBlocks :: "filter \<Rightarrow> error + tx_block list"
  toLocaleDateString :: "nat \<Rightarrow> js_string"
  epoch :: nat

text \<open>The calls a service makes on the ledger client, in order.\<close>

datatype call =
    CallGetCoins js_string
  | CallGetBalance js_string
  | CallGetReferenceGasPrice
  | CallBuild transaction
  | CallExecute "8 word list" js_string
  | CallQuery filter

section \<open>MultiProviderZkLoginService\<close>

record user =
  user_email :: jsval
  loginTime :: js_string
  user_provider :: js_string
  user_login :: jsval
  user_name :: jsval
  user_picture :: jsval

text \<open>
  The fields both services keep and persist; \<open>zk_session\<close> is the object
  \<open>saveSecureSession\<close> writes, \<open>zk_service\<close> the instance, which has the ephemeral key pair
  in addition.
\<close>

record session_base =
  user :: "user option"
  walletAddress :: "js_string option"
  sessionExpiry :: "nat option"

record zk_session = session_base +
  userSalt :: "js_string option"
  zkProof :: "ZkProof option"
  maxEpoch :: "nat option"

record zk_service = zk_session +
  ephemeralKeyPair :: "8 word list option"

definition new_zk_service :: zk_service where
  "new_zk_service =
     \<lparr>user = None, walletAddress = None, sessionExpiry = None, userSalt = None,
      zkProof = None, maxEpoch = None, ephemeralKeyPair = None\<rparr>"

subsection \<open>Salt and session\<close>

definition saltKey :: "js_string \<Rightarrow> user_data \<Rightarrow> js_string" where
  "saltKey provider userData = lit ''zklogin_salt_'' @ provider @ lit ''_'' @ template (sub userData)"

text \<open>
  \<open>getUserSalt\<close>. \<open>fresh\<close> is the string \<open>Math.floor(Math.random() * 2 ** 64).toString()\<close>,
  the random draw as JavaScript prints it; being the text of a number, it is not empty.
  The storage is taken to be available: the \<open>catch\<close> block, for a browser that refuses
  access to it, is not modelled.
\<close>

definition getUserSalt ::
  "user_data \<Rightarrow> js_string \<Rightarrow> js_string \<Rightarrow> browser \<Rightarrow> js_string \<times> browser" where
  "getUserSalt userData provider fresh br =
     (let key = saltKey provider userData;
          salt = localStorage br key
      in if absent salt
         then (fresh, br\<lparr>localStorage := (localStorage br)(key \<mapsto> fresh)\<rparr>)
         else (the salt, br))"

definition zk_logout :: "zk_service \<times> browser \<Rightarrow> zk_service \<times> browser" where
  "zk_logout s =
     (new_zk_service,
      (snd s)\<lparr>localStorage := (localStorage (snd s))(lit ''zklogin_session'' := None),
              sessionStorage := Map.empty\<rparr>)"

text \<open>
  \<open>Date.now() > session.sessionExpiry\<close>: a \<open>null\<close> expiry counts as 0.
\<close>

definition expired :: "nat \<Rightarrow> nat option \<Rightarrow> bool" where
  "expired now e = ((case e of None \<Rightarrow> 0 | Some t \<Rightarrow> t) < now)"

text \<open>
  \<open>restoreSession\<close>. \<open>parse\<close> is \<open>JSON.parse\<close> on the stored text, giving the fields of the
  object it returns; \<open>None\<close> when it throws, or returns a value whose fields cannot be read:
  the \<open>catch\<close> block then returns \<open>false\<close>. The result is the returned boolean and the
  new state.
\<close>

definition zk_restoreSession ::
  "(js_string \<Rightarrow> zk_session option) \<Rightarrow> nat \<Rightarrow> zk_service \<times> browser \<Rightarrow> bool \<times> zk_service \<times> browser" where
  "zk_restoreSession parse now s =
     (let data = localStorage (snd s) (lit ''zklogin_session'')
      in if absent data then (False, s)
         else (case parse (the data) of
                 None \<Rightarrow> (False, s)
               | Some session \<Rightarrow>
                   if expired now (sessionExpiry session) then (False, zk_logout s)
                   else (True,
                         (fst s)\<lparr>user := user session,
                                 walletAddress := walletAddress session,
                                 sessionExpiry := sessionExpiry session,
                                 userSalt := userSalt session,
                                 zkProof := zkProof session,
                                 maxEpoch := maxEpoch session\<rparr>,
                         snd s)))"

definition zk_saveSecureSession ::
  "(zk_session \<Rightarrow> js_string) \<Rightarrow> zk_service \<times> browser \<Rightarrow> zk_service \<times> browser" where
  "zk_saveSecureSession stringify s =
     (fst s,
      (snd s)\<lparr>localStorage := (localStorage (snd s))
         (lit ''zklogin_session'' \<mapsto>
            stringify \<lparr>user = user (fst s), walletAddress = walletAddress (fst s),
                       sessionExpiry = sessionExpiry (fst s), userSalt = userSalt (fst s),
                       zkProof = zkProof (fst s), maxEpoch = maxEpoch (fst s)\<rparr>)\<rparr>)"

subsection \<open>Balance\<close>

text \<open>The loop \<open>for (const coin of coins.data) totalBalance += BigInt(coin.balance)\<close>.\<close>

fun totalBalance_loop :: "int \<Rightarrow> coin list \<Rightarrow> int" where
  "totalBalance_loop totalBalance [] = totalBalance"
| "totalBalance_loop totalBalance (c # cs) = totalBalance_loop (totalBalance + int (balance c)) cs"

text \<open>
  The body of the \<open>try\<close> block of \<open>getBalance\<close>, with the ledger calls it made, and
  \<open>getBalance\<close> itself, whose \<open>catch\<close> block turns every error into \<open>"0"\<close>.
\<close>

definition zk_getBalance_try :: "env \<Rightarrow> zk_service \<Rightarrow> (error + js_string) \<times> call list" where
  "zk_getBalance_try env svc =
     (if absent (walletAddress svc) then (Inr (lit ''0''), [])
      else
        let address = the (walletAddress svc)
        in (case getCoins env address of
              Inl err \<Rightarrow> (Inl err, [CallGetCoins address])
            | Inr coins \<Rightarrow>
                (Inr (toFixed 6 (js_div (Number_of_bigint (totalBalance_loop 0 coins)) 1000000000)),
                 [CallGetCoins address])))"

definition zk_getBalance :: "env \<Rightarrow> zk_service \<Rightarrow> js_string \<times> call list" where
  "zk_getBalance env svc =
     (case zk_getBalance_try env svc of
        (Inl err, calls) \<Rightarrow> (lit ''0'', calls)
      | (Inr suiBalance, calls) \<Rightarrow> (suiBalance, calls))"

subsection \<open>Sending\<close>

text \<open>
  The search \<open>for (const coin of coins.data) if (coinBalance >= amountInMist) { suitableCoin =
  coin; break; }\<close>.
\<close>

fun suitableCoin :: "int \<Rightarrow> coin list \<Rightarrow> coin option" where
  "suitableCoin amountInMist [] = None"
| "suitableCoin amountInMist (c # cs) =
     (if amountInMist \<le> int (balance c) then Some c else suitableCoin amountInMist cs)"

text \<open>The commands put into the transaction for the chosen coin.\<close>

definition payment_commands :: "coin \<Rightarrow> int \<Rightarrow> js_string \<Rightarrow> command list" where
  "payment_commands c amountInMist recipient =
     (if amountInMist < int (balance c)
      then [SplitCoins (Object (coinObjectId c)) [amountInMist],
            TransferObjects [Result 0] recipient]
      else [TransferObjects [Object (coinObjectId c)] recipient])"

text \<open>Steps 3 and 4 of \<open>sendTransaction\<close>: the coin selector.\<close>

definition select_payment :: "int \<Rightarrow> coin list \<Rightarrow> js_string \<Rightarrow> error + command list" where
  "select_payment amountInMist coins recipient =
     (case suitableCoin amountInMist coins of
        None \<Rightarrow> Inl MergeNotImplemented
      | Some c \<Rightarrow> Inr (payment_commands c amountInMist recipient))"

definition createZkLoginSignature :: "env \<Rightarrow> zk_service \<Rightarrow> 8 word list \<Rightarrow> error + js_string" where
  "createZkLoginSignature env svc txBytes =
     (case (ephemeralKeyPair svc, zkProof svc) of
        (Some keyPair, Some proof) \<Rightarrow>
          (case sign env keyPair txBytes of
             Inl err \<Rightarrow> Inl err
           | Inr ephemeralSignature \<Rightarrow>
               getZkLoginSignature env proof (maxEpoch svc) ephemeralSignature)
      | _ \<Rightarrow> Inl MissingKeyOrProof)"

datatype send_result = Sent_ok js_string js_string | Send_failed error

text \<open>\<open>gasUsed\<close> of a successful send: cost minus rebate, in SUI with six decimals.\<close>

definition totalGas :: "gas_summary option \<Rightarrow> number" where
  "totalGas g =
     (let c = (case g of None \<Rightarrow> 0 | Some u \<Rightarrow> int (computationCost u));
          s = (case g of None \<Rightarrow> 0 | Some u \<Rightarrow> int (storageCost u));
          r = (case g of None \<Rightarrow> 0 | Some u \<Rightarrow> int (storageRebate u))
      in js_div (js_sub (js_add (fl c 1) (fl s 1)) (fl r 1)) 1000000000)"

text \<open>
  The inner \<open>try\<close> block: signature, execution, and the status check. Whatever is thrown
  inside it is replaced by the one \<open>SigningFailed\<close> error.
\<close>

definition sign_and_execute :: "env \<Rightarrow> zk_service \<Rightarrow> 8 word list \<Rightarrow> send_result \<times> call list" where
  "sign_and_execute env svc txBytes =
     (case createZkLoginSignature env svc txBytes of
        Inl err \<Rightarrow> (Send_failed SigningFailed, [])
      | Inr zkLoginSignature \<Rightarrow>
          (case executeTransactionBlock env txBytes zkLoginSignature of
             Inl err \<Rightarrow> (Send_failed SigningFailed, [CallExecute txBytes zkLoginSignature])
           | Inr result \<Rightarrow>
               (if status result = Some (lit ''success'')
                then Sent_ok (digest result) (toFixed 6 (totalGas (gasUsed result)))
                else Send_failed SigningFailed,
                [CallExecute txBytes zkLoginSignature])))"

text \<open>
  Step 4 begins with \<open>tx.splitCoins\<close> and \<open>tx.transferObjects\<close>, which throw for an
  amount or a recipient the library cannot encode: the first error the commands of the
  payment meet, in the order of the calls.
\<close>

fun first_refusal :: "('a \<Rightarrow> error option) \<Rightarrow> 'a list \<Rightarrow> error option" where
  "first_refusal f [] = None"
| "first_refusal f (x # xs) =
     (case f x of Some err \<Rightarrow> Some err | None \<Rightarrow> first_refusal f xs)"

fun command_refusal :: "env \<Rightarrow> command \<Rightarrow> error option" where
  "command_refusal env (SplitCoins c amounts) = first_refusal (pure_u64 env) amounts"
| "command_refusal env (TransferObjects objects r) = pure_address env r"

definition library_refusal :: "env \<Rightarrow> command list \<Rightarrow> error option" where
  "library_refusal env cmds = first_refusal (command_refusal env) cmds"

text \<open>
  The rest of step 4: sender, gas price, gas budget, and the build. Setting the sender, the
  gas price and the gas budget stores the values and makes no ledger call.
\<close>

definition build_and_send ::
  "env \<Rightarrow> zk_service \<Rightarrow> js_string \<Rightarrow> command list \<Rightarrow> send_result \<times> call list" where
  "build_and_send env svc address cmds =
     (case getReferenceGasPrice env of
        Inl err \<Rightarrow> (Send_failed err, [CallGetReferenceGasPrice])
      | Inr price \<Rightarrow>
          (let tx = \<lparr>commands = cmds, sender = Some address, gasPrice = Some price,
                     gasBudget = Some 10000000\<rparr>
           in (case build env tx of
                 Inl err \<Rightarrow> (Send_failed err, [CallGetReferenceGasPrice, CallBuild tx])
               | Inr txBytes \<Rightarrow>
                   (let (res, calls) = sign_and_execute env svc txBytes
                    in (res, [CallGetReferenceGasPrice, CallBuild tx] @ calls)))))"

text \<open>
  \<open>sendTransaction\<close>. \<open>amountNum\<close> is \<open>parseFloat(amount)\<close>, the number read from the
  amount the user typed. The result is the returned object and the ledger calls made.
\<close>

definition zk_sendTransaction ::
  "env \<Rightarrow> zk_service \<Rightarrow> js_string \<Rightarrow> number \<Rightarrow> send_result \<times> call list" where
  "zk_sendTransaction env svc recipient amountNum =
     (if zkProof svc = None \<or> ephemeralKeyPair svc = None \<or> absent (walletAddress svc)
      then (Send_failed NotAuthenticated, [])
      else
        let address = the (walletAddress svc);
            (balance_text, calls1) = zk_getBalance env svc;
            balanceNum = parseFloat balance_text
        in if is_zero balanceNum then (Send_failed NoSui, calls1)
           else if js_gt amountNum balanceNum then (Send_failed InsufficientBalance, calls1)
           else
             (case getCoins env address of
                Inl err \<Rightarrow> (Send_failed err, calls1 @ [CallGetCoins address])
              | Inr coins \<Rightarrow>
                  if coins = [] then (Send_failed NoCoinsFound, calls1 @ [CallGetCoins address])
                  else
                    (case BigInt_of_number (js_floor (js_mul amountNum 1000000000)) of
                       Inl err \<Rightarrow> (Send_failed err, calls1 @ [CallGetCoins address])
                     | Inr amountInMist \<Rightarrow>
                         (case select_payment amountInMist coins recipient of
                            Inl err \<Rightarrow> (Send_failed err, calls1 @ [CallGetCoins address])
                          | Inr cmds \<Rightarrow>
                              (case library_refusal env cmds of
                                 Some err \<Rightarrow> (Send_failed err, calls1 @ [CallGetCoins address])
                               | None \<Rightarrow>
                                   (let (res, calls2) = build_and_send env svc address cmds
                                    in (res, calls1 @ [CallGetCoins address] @ calls2)))))))"

subsection \<open>History\<close>

datatype direction = Sent | Received

datatype outcome = Success | Failed

record history_entry =
  entry_id :: js_string
  entry_type :: direction
  entry_amount :: js_string
  entry_date :: js_string
  entry_status :: outcome
  entry_recipient :: "js_string option"
  entry_sender :: "js_string option"

text \<open>\<open>s.includes(p)\<close>.\<close>

fun js_includes :: "js_string \<Rightarrow> js_string \<Rightarrow> bool" where
  "js_includes [] p = (p = [])"
| "js_includes (c # cs) p = (take (length p) (c # cs) = p \<or> js_includes cs p)"

definition or_unknown :: "js_string option \<Rightarrow> js_string" where
  "or_unknown v = (if absent v then lit ''Unknown'' else the v)"

text \<open>The callback of \<open>txHistory.data.map\<close> in the proof-based service.\<close>

definition zk_process_tx :: "env \<Rightarrow> js_string \<Rightarrow> tx_block \<Rightarrow> history_entry" where
  "zk_process_tx env address tx =
     (let isReceived = (tx_sender tx \<noteq> Some address);
          createdObjects = filter (\<lambda>change. change_type change = lit ''created''
              \<and> (case objectType change of None \<Rightarrow> False | Some t \<Rightarrow> js_includes t (lit ''Coin'')))
            (effects_objectChanges tx);
          transferredObjects = filter (\<lambda>change. change_type change = lit ''transferred'')
            (effects_objectChanges tx);
          amount0 =
            (if isReceived then (if createdObjects \<noteq> [] then lit ''1.000'' else lit ''0'')
             else (if transferredObjects \<noteq> [] then lit ''0.100'' else lit ''0''));
          amount1 =
            (case amountMatch tx of
               None \<Rightarrow> amount0
             | Some amountInMist \<Rightarrow> toFixed 6 (js_div (fl (int amountInMist) 1) 1000000000))
      in \<lparr>entry_id = tx_digest tx,
          entry_type = (if isReceived then Received else Sent),
          entry_amount = amount1,
          entry_date = toLocaleDateString env (case timestampMs tx of None \<Rightarrow> 0 | Some t \<Rightarrow> t),
          entry_status = (if tx_status tx = Some (lit ''success'') then Success else Failed),
          entry_recipient =
            (if \<not> isReceived \<and> transferredObjects \<noteq> []
             then Some (or_unknown (owner (hd transferredObjects))) else None),
          entry_sender = (if isReceived then Some (or_unknown (tx_sender tx)) else None)\<rparr>)"

definition zk_getTransactionHistory_try ::
  "env \<Rightarrow> zk_service \<Rightarrow> error + history_entry list" where
  "zk_getTransactionHistory_try env svc =
     (if absent (walletAddress svc) then Inr []
      else
        let address = the (walletAddress svc)
        in (case queryTransactionBlocks env (FromOrToAddress address) of
              Inl err \<Rightarrow> Inl err
            | Inr txs \<Rightarrow> Inr (map (zk_process_tx env address) txs)))"

text \<open>The \<open>catch\<close> block of the proof-based service answers with one made-up entry.\<close>

definition zk_getTransactionHistory :: "env \<Rightarrow> nat \<Rightarrow> zk_service \<Rightarrow> history_entry list" where
  "zk_getTransactionHistory env now svc =
     (case zk_getTransactionHistory_try env svc of
        Inr entries \<Rightarrow> entries
      | Inl err \<Rightarrow>
          [\<lparr>entry_id = lit ''mock_faucet_tx'', entry_type = Received, entry_amount = lit ''1.000'',
            entry_date = toLocaleDateString env now, entry_status = Success, entry_recipient = None,
            entry_sender = Some (lit ''Testnet Faucet'')\<rparr>])"

section \<open>HybridWalletService\<close>

text \<open>
  \<open>hybrid_session\<close> is the object \<open>saveSession\<close> writes, with the private key in
  hexadecimal; \<open>hybrid_service\<close> is the instance.
\<close>

record hybrid_session = session_base +
  privateKey :: js_string

record hybrid_service = session_base +
  keypair :: "8 word list option"

definition new_hybrid_service :: hybrid_service where
  "new_hybrid_service = \<lparr>user = None, walletAddress = None, sessionExpiry = None, keypair = None\<rparr>"

subsection \<open>Balance\<close>

definition hybrid_getBalance_try :: "env \<Rightarrow> hybrid_service \<Rightarrow> error + js_string" where
  "hybrid_getBalance_try env svc =
     (if absent (walletAddress svc) then Inr (lit ''0'')
      else (case getBalance env (the (walletAddress svc)) of
              Inl err \<Rightarrow> Inl err
            | Inr totalBalance \<Rightarrow> Inr (toFixed 6 (js_div (fl (int totalBalance) 1) 1000000000))))"

definition hybrid_getBalance :: "env \<Rightarrow> hybrid_service \<Rightarrow> js_string" where
  "hybrid_getBalance env svc =
     (case hybrid_getBalance_try env svc of Inl err \<Rightarrow> lit ''0'' | Inr suiBalance \<Rightarrow> suiBalance)"

subsection \<open>History\<close>

text \<open>\<open>self.findIndex(p)\<close>: the first index whose element satisfies \<open>p\<close>, or \<open>-1\<close>.\<close>

fun findIndex :: "('a \<Rightarrow> bool) \<Rightarrow> 'a list \<Rightarrow> int" where
  "findIndex p [] = - 1"
| "findIndex p (x # xs) =
     (if p x then 0 else (let i = findIndex p xs in if i < 0 then - 1 else i + 1))"

text \<open>
  \<open>allTxs.filter((tx, index, self) => index === self.findIndex((t) => t.digest === tx.digest))\<close>.
\<close>

definition uniqueTxs :: "tx_block list \<Rightarrow> tx_block list" where
  "uniqueTxs allTxs =
     map snd (filter (\<lambda>(index, tx). int index = findIndex (\<lambda>t. tx_digest t = tx_digest tx) allTxs)
                (enumerate 0 allTxs))"

fun extractAmount_loop :: "object_change list \<Rightarrow> js_string" where
  "extractAmount_loop [] = lit ''0''"
| "extractAmount_loop (change # rest) =
     (if change_type change = lit ''TransferObject'' then
        (case object_data change of
           None \<Rightarrow> extractAmount_loop rest
         | Some d \<Rightarrow>
             if js_includes (data_type d) (lit ''coin::Coin'') then
               (case balance_field d of
                  None \<Rightarrow> extractAmount_loop rest
                | Some amountNum \<Rightarrow> toFixed 9 (js_div amountNum 1000000000))
             else extractAmount_loop rest)
      else extractAmount_loop rest)"

definition extractAmount :: "tx_block \<Rightarrow> js_string" where
  "extractAmount tx =
     (case objectChanges tx of None \<Rightarrow> lit ''0'' | Some changes \<Rightarrow> extractAmount_loop changes)"

text \<open>The callback of \<open>uniqueTxs.map\<close>; the returned object has no other fields.\<close>

definition hybrid_entry :: "env \<Rightarrow> js_string \<Rightarrow> tx_block \<Rightarrow> history_entry" where
  "hybrid_entry env address tx =
     \<lparr>entry_id = tx_digest tx,
      entry_type = (if tx_sender tx = Some address then Sent else Received),
      entry_amount = extractAmount tx,
      entry_date = toLocaleDateString env (case timestampMs tx of None \<Rightarrow> 0 | Some t \<Rightarrow> t),
      entry_status = (if tx_status tx = Some (lit ''success'') then Success else Failed),
      entry_recipient = None,
      entry_sender = None\<rparr>"

definition hybrid_getTransactionHistory_try ::
  "env \<Rightarrow> hybrid_service \<Rightarrow> error + history_entry list" where
  "hybrid_getTransactionHistory_try env svc =
     (if absent (walletAddress svc) then Inr []
      else
        let address = the (walletAddress svc)
        in (case queryTransactionBlocks env (FromAddress address) of
              Inl err \<Rightarrow> Inl err
            | Inr sent \<Rightarrow>
                (case queryTransactionBlocks env (ToAddress address) of
                   Inl err \<Rightarrow> Inl err
                 | Inr received \<Rightarrow>
                     Inr (map (hybrid_entry env address) (uniqueTxs (sent @ received))))))"

definition hybrid_getTransactionHistory :: "env \<Rightarrow> hybrid_service \<Rightarrow> history_entry list" where
  "hybrid_getTransactionHistory env svc =
     (case hybrid_getTransactionHistory_try env svc of Inl err \<Rightarrow> [] | Inr entries \<Rightarrow> entries)"

text \<open>
  The reconciliation in the words of the specification: go through the merged list and
  keep a record unless its id was met before.
\<close>

fun keep_first :: "js_string list \<Rightarrow> tx_block list \<Rightarrow> tx_block list" where
  "keep_first seen [] = []"
| "keep_first seen (tx # txs) =
     (if tx_digest tx \<in> set seen then keep_first seen txs
      else tx # keep_first (tx_digest tx # seen) txs)"

subsection \<open>Session\<close>

text \<open>
  \<open>Buffer.from(s, "hex")\<close>: the bytes of the pairs of hexadecimal digits, up to the first
  pair that is not one.
\<close>

fun hex_decode :: "js_string \<Rightarrow> 8 word list" where
  "hex_decode (a # b # cs) =
     (case (hex_value a, hex_value b) of
        (Some x, Some y) \<Rightarrow> of_nat (16 * x + y) # hex_decode cs
      | _ \<Rightarrow> [])"
| "hex_decode _ = []"

definition hybrid_logout :: "hybrid_service \<times> browser \<Rightarrow> hybrid_service \<times> browser" where
  "hybrid_logout s =
     (new_hybrid_service,
      (snd s)\<lparr>localStorage := (localStorage (snd s))(lit ''hybrid_wallet_session'' := None),
              sessionStorage := Map.empty\<rparr>)"

text \<open>
  \<open>restoreSession\<close>. \<open>Ed25519Keypair.fromSecretKey\<close> throws unless it is given 32 bytes, and
  the log line reads \<open>this.user.email\<close>, which throws when the stored user is \<open>null\<close>, after
  the fields have been assigned; the \<open>catch\<close> block returns \<open>false\<close> in both cases.
  \<open>toSuiAddress\<close> is the address the Sui library computes from the key.
\<close>

definition hybrid_restoreSession ::
  "(8 word list \<Rightarrow> js_string) \<Rightarrow> (js_string \<Rightarrow> hybrid_session option) \<Rightarrow> nat
     \<Rightarrow> hybrid_service \<times> browser \<Rightarrow> bool \<times> hybrid_service \<times> browser" where
  "hybrid_restoreSession toSuiAddress parse now s =
     (let data = localStorage (snd s) (lit ''hybrid_wallet_session'')
      in if absent data then (False, s)
         else (case parse (the data) of
                 None \<Rightarrow> (False, s)
               | Some session \<Rightarrow>
                   if expired now (sessionExpiry session) then (False, hybrid_logout s)
                   else
                     let keyBytes = take 32 (hex_decode (privateKey session))
                     in if length keyBytes \<noteq> 32 then (False, s)
                        else (user session \<noteq> None,
                              (fst s)\<lparr>keypair := Some keyBytes,
                                      walletAddress := Some (toSuiAddress keyBytes),
                                      user := user session,
                                      sessionExpiry := sessionExpiry session\<rparr>,
                              snd s)))"

section \<open>Example data\<close>

definition coin_of :: "string \<Rightarrow> nat \<Rightarrow> coin" where
  "coin_of n b = \<lparr>coinObjectId = lit n, balance = b\<rparr>"

definition empty_browser :: browser where
  "empty_browser = \<lparr>localStorage = Map.empty, sessionStorage = Map.empty\<rparr>"

definition octocat :: user_data where
  "octocat =
     \<lparr>sub = Str (lit ''583231''), id_field = Num 583231, email = Str (lit ''octocat@github.com''),
      login = Str (lit ''octocat''), name = Str (lit ''The Octocat''), picture = Undefined\<rparr>"

definition ex_user :: user where
  "ex_user =
     \<lparr>user_email = Str (lit ''octocat@github.com''), loginTime = lit ''2025-01-01T00:00:00.000Z'',
      user_provider = lit ''github'', user_login = Str (lit ''octocat''),
      user_name = Str (lit ''The Octocat''), user_picture = Undefined\<rparr>"

definition ex_proof :: ZkProof where
  "ex_proof =
     \<lparr>proofPoints_a = [lit ''mock_proof_a_github''], proofPoints_b = [[lit ''mock_proof_b_github'']],
      proofPoints_c = [lit ''mock_proof_c_github''], issBase64Details_value = lit ''aHR0cHM6Ly9naXRodWIuY29t'',
      issBase64Details_indexMod4 = 0, headerBase64 = lit ''eyJhbGciOiJSUzI1NiIsInR5cCI6IkpXVCJ9'',
      addressSeed = lit ''12345''\<rparr>"

text \<open>A stored session of each service, expiring at time 1000, and a browser holding both.\<close>

definition ex_zk_session :: zk_session where
  "ex_zk_session =
     \<lparr>user = Some ex_user, walletAddress = Some (lit ''0xabc''), sessionExpiry = Some 1000,
      userSalt = Some (lit ''7''), zkProof = Some ex_proof, maxEpoch = Some 15\<rparr>"

definition ex_hybrid_session :: hybrid_session where
  "ex_hybrid_session =
     \<lparr>user = Some ex_user, walletAddress = Some (lit ''0xdef''), sessionExpiry = Some 1000,
      privateKey = repeat 4 (lit ''000000001a3f378c'')\<rparr>"

definition ex_browser :: browser where
  "ex_browser =
     \<lparr>localStorage = [lit ''zklogin_session'' \<mapsto> lit ''Z'', lit ''hybrid_wallet_session'' \<mapsto> lit ''H'',
                      lit ''zklogin_salt_github_583231'' \<mapsto> lit ''7''],
      sessionStorage = [lit ''zklogin_provider'' \<mapsto> lit ''github'',
                        lit ''zklogin_ephemeral_keypair'' \<mapsto> lit ''K'']\<rparr>"

text \<open>A logged-in instance of the proof-based service.\<close>

definition ex_zk_service :: zk_service where
  "ex_zk_service =
     \<lparr>user = Some ex_user, walletAddress = Some (lit ''0xabc''), sessionExpiry = Some 1000,
      userSalt = Some (lit ''7''), zkProof = Some ex_proof, maxEpoch = Some 15,
      ephemeralKeyPair = Some (replicate 32 1)\<rparr>"

text \<open>
  What the Sui library accepts: an amount in the range of a \<open>u64\<close>, and an address of at
  most 64 hexadecimal digits after an optional \<open>0x\<close> (it pads a shorter one with zeros).
\<close>

definition u64_refusal :: "int \<Rightarrow> error option" where
  "u64_refusal v =
     (if 0 \<le> v \<and> v < 2 ^ 64 then None else Some (Thrown (lit ''Invalid u64 value'')))"

definition address_refusal :: "js_string \<Rightarrow> error option" where
  "address_refusal r =
     (let h = (if take 2 r = lit ''0x'' \<or> take 2 r = lit ''0X'' then drop 2 r else r)
      in if r \<noteq> [] \<and> length h \<le> 64 \<and> list_all (\<lambda>c. hex_value c \<noteq> None) h then None
         else Some (Thrown (lit ''Invalid Sui address '' @ r)))"

text \<open>A recipient in the form the send form asks for: \<open>0x\<close> and 64 hexadecimal digits.\<close>

definition ex_recipient :: js_string where
  "ex_recipient = lit ''0x'' @ repeat 4 (lit ''00000000000000b0'')"

text \<open>
  A ledger that holds the given coins, answers an execution request with the given
  response and is in the given epoch; and a ledger none of whose calls succeeds.
\<close>

definition ledger :: "coin list \<Rightarrow> error + response \<Rightarrow> nat \<Rightarrow> env" where
  "ledger coins answer e =
     \<lparr>getCoins = (\<lambda>address. Inr coins),
      getBalance = (\<lambda>address. Inr (sum_list (map balance coins))),
      getReferenceGasPrice = Inr 1000,
      pure_u64 = u64_refusal,
      pure_address = address_refusal,
      build = (\<lambda>tx. Inr [1, 2, 3]),
      sign = (\<lambda>keyPair txBytes. Inr (lit ''sig'')),
      getZkLoginSignature = (\<lambda>proof m signature. Inr (lit ''zksig'')),
      executeTransactionBlock = (\<lambda>txBytes signature. answer),
      queryTransactionBlocks = (\<lambda>f. Inr []),
      toLocaleDateString = (\<lambda>t. lit ''1/1/1970''),
      epoch = e\<rparr>"

definition offline :: env where
  "offline =
     \<lparr>getCoins = (\<lambda>address. Inl (Thrown (lit ''fetch failed''))),
      getBalance = (\<lambda>address. Inl (Thrown (lit ''fetch failed''))),
      getReferenceGasPrice = Inl (Thrown (lit ''fetch failed'')),
      pure_u64 = u64_refusal,
      pure_address = address_refusal,
      build = (\<lambda>tx. Inl (Thrown (lit ''fetch failed''))),
      sign = (\<lambda>keyPair txBytes. Inr (lit ''sig'')),
      getZkLoginSignature = (\<lambda>proof m signature. Inr (lit ''zksig'')),
      executeTransactionBlock = (\<lambda>txBytes signature. Inl (Thrown (lit ''fetch failed''))),
      queryTransactionBlocks = (\<lambda>f. Inl (Thrown (lit ''fetch failed''))),
      toLocaleDateString = (\<lambda>t. lit ''1/1/1970''),
      epoch = 0\<rparr>"

text \<open>A logged-in instance of the direct-key service, and a ledger with a history.\<close>

definition ex_hybrid_service :: hybrid_service where
  "ex_hybrid_service =
     \<lparr>user = Some ex_user, walletAddress = Some (lit ''0xdef''), sessionExpiry = Some 1000,
      keypair = Some (replicate 32 1)\<rparr>"

definition tx_of :: "string \<Rightarrow> string \<Rightarrow> tx_block" where
  "tx_of d s =
     \<lparr>tx_digest = lit d, tx_sender = Some (lit s), timestampMs = Some 0,
      tx_status = Some (lit ''success''), objectChanges = None, effects_objectChanges = [],
      amountMatch = None\<rparr>"

definition history_ledger :: "tx_block list \<Rightarrow> tx_block list \<Rightarrow> env" where
  "history_ledger sent received =
     (ledger [] (Inl (Thrown (lit ''rejected''))) 0)
       \<lparr>queryTransactionBlocks :=
          (\<lambda>f. case f of FromAddress a \<Rightarrow> Inr sent | ToAddress a \<Rightarrow> Inr received
                | FromOrToAddress a \<Rightarrow> Inr (sent @ received))\<rparr>"

section \<open>Evaluation lemmas\<close>

lemma toStringRadix_numeral:
  "toStringRadix (numeral b) (numeral n) =
     (if (numeral b :: nat) < 2 \<or> (numeral n :: nat) < numeral b then [digit_unit (numeral n)]
      else toStringRadix (numeral b) (numeral n div numeral b) @ [digit_unit (numeral n mod numeral b)])"
  by (rule toStringRadix.simps)

lemma toStringRadix_0: "toStringRadix (numeral b) 0 = [digit_unit 0]"
  by (subst toStringRadix.simps) simp

lemma toStringRadix_1: "toStringRadix (numeral b) 1 = [digit_unit 1]"
proof -
  have "(numeral b :: nat) < 2 \<or> (1 :: nat) < numeral b"
    by arith
  then show ?thesis
    by (subst toStringRadix.simps) (simp only: if_True)
qed

lemma toStringRadix_Suc_0: "toStringRadix (numeral b) (Suc 0) = [digit_unit 1]"
  using toStringRadix_1 [of b] by simp

lemmas toStringRadix_eval =
  toStringRadix_numeral toStringRadix_0 toStringRadix_1 toStringRadix_Suc_0

lemma toStringRadix_not_empty: "toStringRadix b n \<noteq> []"
  by (subst toStringRadix.simps) simp

lemma repeat_4: "repeat 4 s = s @ s @ s @ s"
  by (simp add: repeat_def eval_nat_numeral)

lemma hex_decode_example:
  "hex_decode (repeat 4 (lit ''000000001a3f378c'')) =
     [0, 0, 0, 0, 26, 63, 55, 140, 0, 0, 0, 0, 26, 63, 55, 140,
      0, 0, 0, 0, 26, 63, 55, 140, 0, 0, 0, 0, 26, 63, 55, 140]"
  by (simp add: repeat_4 lit_def hex_value_def)

lemma bit_length_eval:
  "bit_length 0 = 0" "bit_length (Suc 0) = 1" "bit_length 1 = 1"
  "bit_length (numeral k) = 1 + bit_length (numeral k div 2)"
  by (simp_all add: bit_length.simps [of 0] bit_length.simps [of "Suc 0"]
        bit_length.simps [of "numeral k"])

lemma padding_unroll: "replicate (numeral n) c = c # replicate (numeral n - 1) c"
  by (simp add: numeral_eq_Suc)

lemmas fl_eval = fl_def fl_pos_def mk_fin_def bit_length_eval round_half_even_def Let_def
  Number_of_bigint_def js_div_def js_mul_def

lemmas toFixed_eval = toFixed_def Let_def toStringRadix_eval digit_unit_def padStart_def
  padding_unroll lit_def

lemmas parseFloat_eval = parseFloat_def Let_def lit_def is_digit_def digits_value_def

text \<open>The numbers of the examples below, computed.\<close>

lemma toFixed_3_mist:
  "toFixed 6 (js_div (Number_of_bigint 3) 1000000000) = lit ''0.000000''"
  by (simp add: fl_eval toFixed_eval)

lemma toFixed_0_mist:
  "toFixed 6 (js_div (Number_of_bigint 0) 1000000000) = lit ''0.000000''"
  by (simp add: fl_eval toFixed_eval)

lemma toFixed_5_sui:
  "toFixed 6 (js_div (Number_of_bigint 5000000000) 1000000000) = lit ''5.000000''"
  by (simp add: fl_eval toFixed_eval)

lemma toFixed_30_sui:
  "toFixed 6 (js_div (Number_of_bigint 30000000000) 1000000000) = lit ''30.000000''"
  by (simp add: fl_eval toFixed_eval)

lemma toFixed_rounds_up:
  "toFixed 6 (js_div (Number_of_bigint 1999999600) 1000000000) = lit ''2.000000''"
  by (simp add: fl_eval toFixed_eval)

lemma parseFloat_examples:
  "parseFloat (lit ''0'') = Fin 0 0"
  "parseFloat (lit ''0.000000'') = Fin 0 0"
  "parseFloat (lit ''2.000000'') = Fin 2 0"
  "parseFloat (lit ''5.000000'') = Fin 5 0"
  "parseFloat (lit ''30.000000'') = Fin 30 0"
  by (simp_all add: parseFloat_eval fl_eval)

lemma amountInMist_examples:
  "BigInt_of_number (js_floor (js_mul (Fin 1 0) 1000000000)) = Inr 1000000000"
  "BigInt_of_number (js_floor (js_mul (Fin 2 0) 1000000000)) = Inr 2000000000"
  "BigInt_of_number (js_floor (js_mul (Fin 25 0) 1000000000)) = Inr 25000000000"
  by (simp_all add: fl_eval)

section \<open>Whole numbers in floating point\<close>















section \<open>Key derivation is a function of the identity\<close>

lemma length_padStart: "n \<le> length (padStart n c s)"
  by (simp add: padStart_def)

lemma length_repeat: "length (repeat n s) = n * length s"
  by (induction n) (simp_all add: repeat_def)

lemma length_createDeterministicSeed: "length (createDeterministicSeed u p) = 64"
proof -
  let ?s = "padStart 16 48 (toStringRadix 16 (nat \<bar>sint (hash_loop 0 (identity_string u p))\<bar>))"
  have "16 \<le> length ?s" by (rule length_padStart)
  then have "64 \<le> length (repeat 4 ?s)" by (simp add: length_repeat)
  then show ?thesis by (simp add: createDeterministicSeed_def Let_def)
qed

lemma length_pairs: "length (pairs s) = (length s + 1) div 2"
  by (induction s rule: pairs.induct) simp_all

lemma createKeypairFromSeed_length:
  "s \<noteq> [] \<Longrightarrow> \<exists>key. createKeypairFromSeed s = Some key \<and> length key = 32"
  by (simp add: createKeypairFromSeed_def match_pairs_def Let_def)

text \<open>The seed of the identity \<open>github-12345-a@b.c\<close>, computed.\<close>

lemma hash_example: "hash_loop 0 (lit ''github-12345-a@b.c'') = - 0x1a3f378c"
  by (simp add: lit_def hash_round_def)

lemma toStringRadix_example:
  "toStringRadix 16 (nat \<bar>sint (- 0x1a3f378c :: 32 word)\<bar>) = lit ''1a3f378c''"
  by (simp add: toStringRadix.simps digit_unit_def lit_def)

lemma seed_example:
  "createDeterministicSeed
     \<lparr>sub = Str (lit ''12345''), id_field = Num 12345, email = Str (lit ''a@b.c''),
      login = Undefined, name = Undefined, picture = Undefined\<rparr> (lit ''github'')
   = repeat 4 (lit ''000000001a3f378c'')"
proof -
  have "identity_string
          \<lparr>sub = Str (lit ''12345''), id_field = Num 12345, email = Str (lit ''a@b.c''),
           login = Undefined, name = Undefined, picture = Undefined\<rparr> (lit ''github'')
        = lit ''github-12345-a@b.c''"
    by (simp add: identity_string_def js_or_def lit_def)
  then have "createDeterministicSeed
     \<lparr>sub = Str (lit ''12345''), id_field = Num 12345, email = Str (lit ''a@b.c''),
      login = Undefined, name = Undefined, picture = Undefined\<rparr> (lit ''github'')
     = take 64 (repeat 4 (padStart 16 48 (lit ''1a3f378c'')))"
    by (simp only: createDeterministicSeed_def Let_def hash_example toStringRadix_example)
  then show ?thesis
    by (simp add: padStart_def repeat_def lit_def eval_nat_numeral)
qed

text \<open>
  C1. Two claims that agree on the subject (\<open>sub || id\<close>) and on the e-mail address give, for
  the same provider, the same 32-byte private key and the same wallet address, whatever
  their other fields are. The derivation takes the identity alone: no storage is read.
\<close>

theorem direct_key_deterministic:
  assumes "js_or (sub u) (id_field u) = js_or (sub v) (id_field v)" and "email u = email v"
  shows "\<exists>key. length key = 32
           \<and> deriveWallet toSuiAddress u provider = Some (key, toSuiAddress key)
           \<and> deriveWallet toSuiAddress v provider = Some (key, toSuiAddress key)"
proof -
  have same: "createDeterministicSeed u provider = createDeterministicSeed v provider"
    using assms by (simp add: createDeterministicSeed_def identity_string_def)
  have "createDeterministicSeed u provider \<noteq> []"
    using length_createDeterministicSeed [of u provider] by auto
  then obtain key where "createKeypairFromSeed (createDeterministicSeed u provider) = Some key"
    and "length key = 32"
    using createKeypairFromSeed_length by blast
  then show ?thesis
    using same by (simp add: deriveWallet_def)
qed

theorem direct_key_deterministic_witness:
  "\<exists>key. length key = 32
     \<and> deriveWallet (\<lambda>k. map ucast k)
          \<lparr>sub = Str (lit ''12345''), id_field = Num 12345, email = Str (lit ''a@b.c''),
           login = Str (lit ''octo''), name = Undefined, picture = Undefined\<rparr> (lit ''github'')
        = Some (key, map ucast key)
     \<and> deriveWallet (\<lambda>k. map ucast k)
          \<lparr>sub = Str (lit ''12345''), id_field = Num 12345, email = Str (lit ''a@b.c''),
           login = Null, name = Str (lit ''Octo Cat''), picture = Null\<rparr> (lit ''github'')
        = Some (key, map ucast key)"
  using direct_key_deterministic [of
      "\<lparr>sub = Str (lit ''12345''), id_field = Num 12345, email = Str (lit ''a@b.c''),
           login = Str (lit ''octo''), name = Undefined, picture = Undefined\<rparr>"
      "\<lparr>sub = Str (lit ''12345''), id_field = Num 12345, email = Str (lit ''a@b.c''),
           login = Null, name = Str (lit ''Octo Cat''), picture = Null\<rparr>"
      "\<lambda>k. map ucast k" "lit ''github''"]
  by (simp add: js_or_def)

section \<open>The payment coin selector\<close>



lemma suitableCoin_cases:
  "(\<forall>c \<in> set coins. int (balance c) < a)
   \<or> (\<exists>pre c post. coins = pre @ c # post \<and> (\<forall>c' \<in> set pre. int (balance c') < a)
         \<and> a \<le> int (balance c))"
proof (induction coins)
  case Nil
  then show ?case by simp
next
  case (Cons x xs)
  show ?case
  proof (cases "a \<le> int (balance x)")
    case True
    then have "x # xs = [] @ x # xs \<and> (\<forall>c' \<in> set []. int (balance c') < a) \<and> a \<le> int (balance x)"
      by simp
    then show ?thesis by blast
  next
    case False
    from Cons.IH show ?thesis
    proof
      assume "\<forall>c \<in> set xs. int (balance c) < a"
      with False show ?thesis by simp
    next
      assume "\<exists>pre c post. xs = pre @ c # post \<and> (\<forall>c' \<in> set pre. int (balance c') < a)
         \<and> a \<le> int (balance c)"
      then obtain pre c post where "xs = pre @ c # post" "\<forall>c' \<in> set pre. int (balance c') < a"
        "a \<le> int (balance c)" by blast
      with False have "x # xs = (x # pre) @ c # post \<and> (\<forall>c' \<in> set (x # pre). int (balance c') < a)
         \<and> a \<le> int (balance c)" by simp
      then show ?thesis by blast
    qed
  qed
qed



section \<open>The salt store\<close>

lemma saltKey_not_session: "saltKey provider userData \<noteq> lit ''zklogin_session''"
  by (simp add: saltKey_def lit_def)

lemma getUserSalt_first:
  "localStorage br (saltKey provider userData) = None \<Longrightarrow>
   getUserSalt userData provider fresh br =
     (fresh, br\<lparr>localStorage := (localStorage br)(saltKey provider userData \<mapsto> fresh)\<rparr>)"
  by (simp add: getUserSalt_def absent_def Let_def)

lemma getUserSalt_stored:
  "localStorage br (saltKey provider userData) = Some s \<Longrightarrow> s \<noteq> [] \<Longrightarrow>
   getUserSalt userData provider fresh br = (s, br)"
  by (simp add: getUserSalt_def absent_def Let_def)

lemma getUserSalt_result_stored:
  "fresh \<noteq> [] \<Longrightarrow>
   localStorage (snd (getUserSalt userData provider fresh br)) (saltKey provider userData)
     = Some (fst (getUserSalt userData provider fresh br))
   \<and> fst (getUserSalt userData provider fresh br) \<noteq> []"
  by (auto simp: getUserSalt_def absent_def Let_def split: option.splits)

lemma zk_logout_keeps_salt:
  "localStorage (snd (zk_logout (svc, br))) (saltKey provider userData)
     = localStorage br (saltKey provider userData)"
  by (simp add: zk_logout_def saltKey_not_session)

lemma zk_logout_clears:
  "fst (zk_logout (svc, br)) = new_zk_service
   \<and> localStorage (snd (zk_logout (svc, br))) (lit ''zklogin_session'') = None
   \<and> sessionStorage (snd (zk_logout (svc, br))) = Map.empty"
  by (simp add: zk_logout_def)

text \<open>
  C7. \<open>fresh1\<close> and \<open>fresh2\<close> are the texts of two random draws, neither empty. When no salt
  is stored for the pair of provider and subject, \<open>getUserSalt\<close> stores the text of the draw
  under the key of the pair and returns it. After any call, a further call returns the
  same salt and leaves the storage as it is, whatever the new draw. \<open>logout\<close> resets every
  field of the service to \<open>null\<close> (the session, the proof and the ephemeral key pair among
  them), removes the stored session \<open>zklogin_session\<close> and empties the session storage,
  where the ephemeral key is kept; it leaves the stored salt of every pair unchanged, so
  that the call after a logout returns the salt of before.
\<close>

theorem salt_generated_once_and_kept:
  assumes "fresh1 \<noteq> []"
  shows "(localStorage br (saltKey provider userData) = None \<longrightarrow>
      getUserSalt userData provider fresh1 br =
        (fresh1, br\<lparr>localStorage := (localStorage br)(saltKey provider userData \<mapsto> fresh1)\<rparr>))
   \<and> getUserSalt userData provider fresh2 (snd (getUserSalt userData provider fresh1 br))
       = (fst (getUserSalt userData provider fresh1 br), snd (getUserSalt userData provider fresh1 br))
   \<and> zk_logout (svc, br) =
       (new_zk_service,
        br\<lparr>localStorage := (localStorage br)(lit ''zklogin_session'' := None),
           sessionStorage := Map.empty\<rparr>)
   \<and> user (fst (zk_logout (svc, br))) = None
   \<and> zkProof (fst (zk_logout (svc, br))) = None
   \<and> ephemeralKeyPair (fst (zk_logout (svc, br))) = None
   \<and> localStorage (snd (zk_logout (svc, br))) (lit ''zklogin_session'') = None
   \<and> sessionStorage (snd (zk_logout (svc, br))) (lit ''zklogin_ephemeral_keypair'') = None
   \<and> localStorage (snd (zk_logout (svc, br))) (saltKey provider userData)
       = localStorage br (saltKey provider userData)
   \<and> fst (getUserSalt userData provider fresh2
            (snd (zk_logout (svc, snd (getUserSalt userData provider fresh1 br)))))
       = fst (getUserSalt userData provider fresh1 br)"
proof -
  let ?k = "saltKey provider userData"
  let ?first = "getUserSalt userData provider fresh1 br"
  have stored: "localStorage (snd ?first) ?k = Some (fst ?first)" and ne: "fst ?first \<noteq> []"
    using getUserSalt_result_stored [OF assms, of userData provider br] by simp_all
  have second: "getUserSalt userData provider fresh2 (snd ?first) = (fst ?first, snd ?first)"
    using getUserSalt_stored [OF stored ne] .
  have "localStorage (snd (zk_logout (svc, snd ?first))) ?k = Some (fst ?first)"
    using stored by (simp add: zk_logout_keeps_salt)
  then have after: "getUserSalt userData provider fresh2 (snd (zk_logout (svc, snd ?first)))
      = (fst ?first, snd (zk_logout (svc, snd ?first)))"
    using ne by (rule getUserSalt_stored)
  have cleared: "zk_logout (svc, br) =
       (new_zk_service,
        br\<lparr>localStorage := (localStorage br)(lit ''zklogin_session'' := None),
           sessionStorage := Map.empty\<rparr>)"
    by (simp add: zk_logout_def)
  have fields: "user (fst (zk_logout (svc, br))) = None"
      "zkProof (fst (zk_logout (svc, br))) = None"
      "ephemeralKeyPair (fst (zk_logout (svc, br))) = None"
    by (simp_all add: zk_logout_def new_zk_service_def)
  have stores: "localStorage (snd (zk_logout (svc, br))) (lit ''zklogin_session'') = None"
      "sessionStorage (snd (zk_logout (svc, br))) (lit ''zklogin_ephemeral_keypair'') = None"
    by (simp_all add: zk_logout_def)
  show ?thesis
    using second after cleared fields stores
    by (simp add: getUserSalt_first saltKey_not_session)
qed

theorem salt_generated_once_and_kept_witness:
  "lit ''9223372036854776000'' \<noteq> []
   \<and> localStorage empty_browser (saltKey (lit ''github'') octocat) = None
   \<and> getUserSalt octocat (lit ''github'') (lit ''9223372036854776000'') empty_browser =
        (lit ''9223372036854776000'',
         empty_browser\<lparr>localStorage :=
           [lit ''zklogin_salt_github_583231'' \<mapsto> lit ''9223372036854776000'']\<rparr>)
   \<and> fst (getUserSalt octocat (lit ''github'') (lit ''7'')
            (snd (zk_logout (ex_zk_service,
               snd (getUserSalt octocat (lit ''github'') (lit ''9223372036854776000'') ex_browser)))))
        = fst (getUserSalt octocat (lit ''github'') (lit ''9223372036854776000'') ex_browser)
   \<and> localStorage ex_browser (lit ''zklogin_session'') \<noteq> None
   \<and> sessionStorage ex_browser (lit ''zklogin_ephemeral_keypair'') \<noteq> None
   \<and> ephemeralKeyPair ex_zk_service \<noteq> None
   \<and> ephemeralKeyPair (fst (zk_logout (ex_zk_service, ex_browser))) = None
   \<and> zkProof (fst (zk_logout (ex_zk_service, ex_browser))) = None
   \<and> localStorage (snd (zk_logout (ex_zk_service, ex_browser))) (lit ''zklogin_session'') = None
   \<and> sessionStorage (snd (zk_logout (ex_zk_service, ex_browser))) (lit ''zklogin_ephemeral_keypair'') = None"
proof -
  let ?salt = "lit ''9223372036854776000''"
  have ne: "?salt \<noteq> []"
    by (simp add: lit_def)
  have none: "localStorage empty_browser (saltKey (lit ''github'') octocat) = None"
    by (simp add: empty_browser_def)
  have key: "saltKey (lit ''github'') octocat = lit ''zklogin_salt_github_583231''"
    by (simp add: saltKey_def octocat_def lit_def)
  have before: "localStorage ex_browser (lit ''zklogin_session'') \<noteq> None"
      "sessionStorage ex_browser (lit ''zklogin_ephemeral_keypair'') \<noteq> None"
      "ephemeralKeyPair ex_zk_service \<noteq> None"
    by (simp_all add: ex_browser_def ex_zk_service_def lit_def)
  note fresh_browser =
    salt_generated_once_and_kept [OF ne, of empty_browser "lit ''github''" octocat "lit ''7''" new_zk_service]
  note used_browser =
    salt_generated_once_and_kept [OF ne, of ex_browser "lit ''github''" octocat "lit ''7''" ex_zk_service]
  from fresh_browser none
  have "getUserSalt octocat (lit ''github'') ?salt empty_browser =
      (?salt, empty_browser\<lparr>localStorage :=
         (localStorage empty_browser)(saltKey (lit ''github'') octocat \<mapsto> ?salt)\<rparr>)"
    by blast
  then have first: "getUserSalt octocat (lit ''github'') ?salt empty_browser =
      (?salt, empty_browser\<lparr>localStorage := [lit ''zklogin_salt_github_583231'' \<mapsto> ?salt]\<rparr>)"
    by (simp add: key empty_browser_def)
  from used_browser have after: "fst (getUserSalt octocat (lit ''github'') (lit ''7'')
      (snd (zk_logout (ex_zk_service, snd (getUserSalt octocat (lit ''github'') ?salt ex_browser)))))
        = fst (getUserSalt octocat (lit ''github'') ?salt ex_browser)"
    by blast
  from used_browser have cleared:
      "ephemeralKeyPair (fst (zk_logout (ex_zk_service, ex_browser))) = None"
      "zkProof (fst (zk_logout (ex_zk_service, ex_browser))) = None"
      "localStorage (snd (zk_logout (ex_zk_service, ex_browser))) (lit ''zklogin_session'') = None"
      "sessionStorage (snd (zk_logout (ex_zk_service, ex_browser))) (lit ''zklogin_ephemeral_keypair'') = None"
    by blast+
  from ne none first after before cleared show ?thesis
    by blast
qed
section \<open>Restoring a session\<close>

text \<open>
  C9. Each service reads its own stored session. In the
  proof-based service a stored session whose expiry lies in the past makes \<open>restoreSession\<close>
  return \<open>false\<close>, reset the instance, remove the stored session and empty the session
  storage; one whose expiry has not passed is reinstated, field by field, and \<open>true\<close> is
  returned. In the direct-key service the expiry is tested first: an expired session is
  cleared in the same way whatever key and user it holds; one that has not expired, with
  a key of at least 32 bytes and a user, is reinstated with the key pair rebuilt from the
  first 32 bytes of the stored key and the address computed from that key, not the stored
  address, and \<open>true\<close> is returned.
\<close>

theorem expired_session_is_cleared:
  "(localStorage br (lit ''zklogin_session'') = Some ztext \<and> ztext \<noteq> []
      \<and> zparse ztext = Some zsession \<and> sessionExpiry zsession = Some zt
    \<longrightarrow> zk_restoreSession zparse now (zsvc, br) =
       (if zt < now
        then (False, new_zk_service,
              br\<lparr>localStorage := (localStorage br)(lit ''zklogin_session'' := None),
                  sessionStorage := Map.empty\<rparr>)
        else (True,
              zsvc\<lparr>user := user zsession, walletAddress := walletAddress zsession,
                    sessionExpiry := Some zt, userSalt := userSalt zsession,
                    zkProof := zkProof zsession, maxEpoch := maxEpoch zsession\<rparr>,
              br)))
   \<and> (localStorage br (lit ''hybrid_wallet_session'') = Some htext \<and> htext \<noteq> []
      \<and> hparse htext = Some hsession \<and> sessionExpiry hsession = Some ht \<and> ht < now
    \<longrightarrow> hybrid_restoreSession toSuiAddress hparse now (hsvc, br) =
       (False, new_hybrid_service,
        br\<lparr>localStorage := (localStorage br)(lit ''hybrid_wallet_session'' := None),
            sessionStorage := Map.empty\<rparr>))
   \<and> (localStorage br (lit ''hybrid_wallet_session'') = Some htext \<and> htext \<noteq> []
      \<and> hparse htext = Some hsession \<and> sessionExpiry hsession = Some ht \<and> \<not> ht < now
      \<and> 32 \<le> length (hex_decode (privateKey hsession)) \<and> user hsession \<noteq> None
    \<longrightarrow> hybrid_restoreSession toSuiAddress hparse now (hsvc, br) =
       (True,
        hsvc\<lparr>keypair := Some (take 32 (hex_decode (privateKey hsession))),
              walletAddress := Some (toSuiAddress (take 32 (hex_decode (privateKey hsession)))),
              user := user hsession, sessionExpiry := Some ht\<rparr>,
        br))"
proof (intro conjI impI)
  assume "localStorage br (lit ''zklogin_session'') = Some ztext \<and> ztext \<noteq> []
      \<and> zparse ztext = Some zsession \<and> sessionExpiry zsession = Some zt"
  then show "zk_restoreSession zparse now (zsvc, br) =
       (if zt < now
        then (False, new_zk_service,
              br\<lparr>localStorage := (localStorage br)(lit ''zklogin_session'' := None),
                  sessionStorage := Map.empty\<rparr>)
        else (True,
              zsvc\<lparr>user := user zsession, walletAddress := walletAddress zsession,
                    sessionExpiry := Some zt, userSalt := userSalt zsession,
                    zkProof := zkProof zsession, maxEpoch := maxEpoch zsession\<rparr>,
              br))"
    by (simp add: zk_restoreSession_def absent_def expired_def zk_logout_def)
next
  assume "localStorage br (lit ''hybrid_wallet_session'') = Some htext \<and> htext \<noteq> []
      \<and> hparse htext = Some hsession \<and> sessionExpiry hsession = Some ht \<and> ht < now"
  then show "hybrid_restoreSession toSuiAddress hparse now (hsvc, br) =
       (False, new_hybrid_service,
        br\<lparr>localStorage := (localStorage br)(lit ''hybrid_wallet_session'' := None),
            sessionStorage := Map.empty\<rparr>)"
    by (simp add: hybrid_restoreSession_def absent_def expired_def hybrid_logout_def Let_def)
next
  assume "localStorage br (lit ''hybrid_wallet_session'') = Some htext \<and> htext \<noteq> []
      \<and> hparse htext = Some hsession \<and> sessionExpiry hsession = Some ht \<and> \<not> ht < now
      \<and> 32 \<le> length (hex_decode (privateKey hsession)) \<and> user hsession \<noteq> None"
  then show "hybrid_restoreSession toSuiAddress hparse now (hsvc, br) =
       (True,
        hsvc\<lparr>keypair := Some (take 32 (hex_decode (privateKey hsession))),
              walletAddress := Some (toSuiAddress (take 32 (hex_decode (privateKey hsession)))),
              user := user hsession, sessionExpiry := Some ht\<rparr>,
        br)"
    by (simp add: hybrid_restoreSession_def absent_def expired_def hybrid_logout_def Let_def)
qed

theorem expired_session_is_cleared_witness:
  "zk_restoreSession (\<lambda>t. Some ex_zk_session) 2000 (ex_zk_service, ex_browser) =
     (False, new_zk_service,
      ex_browser\<lparr>localStorage := (localStorage ex_browser)(lit ''zklogin_session'' := None),
                 sessionStorage := Map.empty\<rparr>)
   \<and> zk_restoreSession (\<lambda>t. Some ex_zk_session) 1000 (new_zk_service, ex_browser) =
     (True,
      new_zk_service\<lparr>user := Some ex_user, walletAddress := Some (lit ''0xabc''),
                     sessionExpiry := Some 1000, userSalt := Some (lit ''7''),
                     zkProof := Some ex_proof, maxEpoch := Some 15\<rparr>,
      ex_browser)
   \<and> hybrid_restoreSession (\<lambda>k. lit ''0xfed'') (\<lambda>t. Some (ex_hybrid_session\<lparr>user := None, privateKey := []\<rparr>)) 2000
        (ex_hybrid_service, ex_browser) =
     (False, new_hybrid_service,
      ex_browser\<lparr>localStorage := (localStorage ex_browser)(lit ''hybrid_wallet_session'' := None),
                 sessionStorage := Map.empty\<rparr>)
   \<and> hybrid_restoreSession (\<lambda>k. lit ''0xfed'') (\<lambda>t. Some ex_hybrid_session) 1000
        (new_hybrid_service, ex_browser) =
     (True,
      new_hybrid_service\<lparr>keypair := Some (take 32 (hex_decode (privateKey ex_hybrid_session))),
                         walletAddress := Some (lit ''0xfed''),
                         user := Some ex_user, sessionExpiry := Some 1000\<rparr>,
      ex_browser)"
proof -
  have z: "localStorage ex_browser (lit ''zklogin_session'') = Some (lit ''Z'')"
    by (simp add: ex_browser_def lit_def)
  have h: "localStorage ex_browser (lit ''hybrid_wallet_session'') = Some (lit ''H'')"
    by (simp add: ex_browser_def lit_def)
  have ne: "lit ''Z'' \<noteq> []" "lit ''H'' \<noteq> []"
    by (simp_all add: lit_def)
  have ze: "sessionExpiry ex_zk_session = Some 1000" and he: "sessionExpiry ex_hybrid_session = Some 1000"
    and he': "sessionExpiry (ex_hybrid_session\<lparr>user := None, privateKey := []\<rparr>) = Some 1000"
    by (simp_all add: ex_zk_session_def ex_hybrid_session_def)
  have len: "32 \<le> length (hex_decode (privateKey ex_hybrid_session))"
    by (simp add: ex_hybrid_session_def hex_decode_example)
  have u: "user ex_hybrid_session \<noteq> None"
    by (simp add: ex_hybrid_session_def)
  have 1: "zk_restoreSession (\<lambda>t. Some ex_zk_session) 2000 (ex_zk_service, ex_browser) =
     (False, new_zk_service,
      ex_browser\<lparr>localStorage := (localStorage ex_browser)(lit ''zklogin_session'' := None),
                 sessionStorage := Map.empty\<rparr>)"
    using expired_session_is_cleared [where br = ex_browser and ztext = "lit ''Z''"
        and zparse = "\<lambda>t. Some ex_zk_session" and zsession = ex_zk_session and zt = 1000
        and now = 2000 and zsvc = ex_zk_service, THEN conjunct1] z ne(1) ze
    by simp
  have 2: "zk_restoreSession (\<lambda>t. Some ex_zk_session) 1000 (new_zk_service, ex_browser) =
     (True,
      new_zk_service\<lparr>user := Some ex_user, walletAddress := Some (lit ''0xabc''),
                     sessionExpiry := Some 1000, userSalt := Some (lit ''7''),
                     zkProof := Some ex_proof, maxEpoch := Some 15\<rparr>,
      ex_browser)"
    using expired_session_is_cleared [where br = ex_browser and ztext = "lit ''Z''"
        and zparse = "\<lambda>t. Some ex_zk_session" and zsession = ex_zk_session and zt = 1000
        and now = 1000 and zsvc = new_zk_service, THEN conjunct1] z ne(1) ze
    by (simp add: ex_zk_session_def)
  have 3: "hybrid_restoreSession (\<lambda>k. lit ''0xfed'')
        (\<lambda>t. Some (ex_hybrid_session\<lparr>user := None, privateKey := []\<rparr>)) 2000
        (ex_hybrid_service, ex_browser) =
     (False, new_hybrid_service,
      ex_browser\<lparr>localStorage := (localStorage ex_browser)(lit ''hybrid_wallet_session'' := None),
                 sessionStorage := Map.empty\<rparr>)"
    using expired_session_is_cleared [where br = ex_browser and htext = "lit ''H''"
        and hparse = "\<lambda>t. Some (ex_hybrid_session\<lparr>user := None, privateKey := []\<rparr>)"
        and hsession = "ex_hybrid_session\<lparr>user := None, privateKey := []\<rparr>" and ht = 1000
        and now = 2000 and hsvc = ex_hybrid_service and toSuiAddress = "\<lambda>k. lit ''0xfed''",
        THEN conjunct2, THEN conjunct1] h ne(2) he'
    by simp
  have 4: "hybrid_restoreSession (\<lambda>k. lit ''0xfed'') (\<lambda>t. Some ex_hybrid_session) 1000
        (new_hybrid_service, ex_browser) =
     (True,
      new_hybrid_service\<lparr>keypair := Some (take 32 (hex_decode (privateKey ex_hybrid_session))),
                         walletAddress := Some (lit ''0xfed''),
                         user := Some ex_user, sessionExpiry := Some 1000\<rparr>,
      ex_browser)"
    using expired_session_is_cleared [where br = ex_browser and htext = "lit ''H''"
        and hparse = "\<lambda>t. Some ex_hybrid_session"
        and hsession = ex_hybrid_session and ht = 1000
        and now = 1000 and hsvc = new_hybrid_service and toSuiAddress = "\<lambda>k. lit ''0xfed''",
        THEN conjunct2, THEN conjunct2] h ne(2) he len u
    by (simp add: ex_hybrid_session_def)
  from 1 2 3 4 show ?thesis by (intro conjI)
qed
text \<open>
  C10. \<open>restoreSession\<close> of the proof-based service assigns the user, the wallet address,
  the expiry, the salt, the proof and \<open>maxEpoch\<close> from the stored session and leaves the
  ephemeral key pair as it was. On a new instance the key pair is therefore still \<open>null\<close>
  after a successful restore, and every \<open>sendTransaction\<close> returns the authentication
  failure without a single ledger call.
\<close>

theorem restored_session_cannot_send:
  assumes "zk_restoreSession parse now (svc0, br) = (True, svc1, br1)"
  shows "ephemeralKeyPair svc1 = ephemeralKeyPair svc0
     \<and> (\<exists>session. parse (the (localStorage br (lit ''zklogin_session''))) = Some session
           \<and> user svc1 = user session \<and> walletAddress svc1 = walletAddress session
           \<and> sessionExpiry svc1 = sessionExpiry session \<and> userSalt svc1 = userSalt session
           \<and> zkProof svc1 = zkProof session \<and> maxEpoch svc1 = maxEpoch session)
     \<and> (svc0 = new_zk_service \<longrightarrow>
           zk_sendTransaction env svc1 recipient amountNum = (Send_failed NotAuthenticated, []))"
proof -
  from assms obtain session where p: "parse (the (localStorage br (lit ''zklogin_session''))) = Some session"
    and s: "svc1 = svc0\<lparr>user := user session, walletAddress := walletAddress session,
                    sessionExpiry := sessionExpiry session, userSalt := userSalt session,
                    zkProof := zkProof session, maxEpoch := maxEpoch session\<rparr>"
    by (auto simp: zk_restoreSession_def Let_def zk_logout_def split: if_splits option.splits)
  have k: "ephemeralKeyPair svc1 = ephemeralKeyPair svc0"
    using s by simp
  have ex: "\<exists>session. parse (the (localStorage br (lit ''zklogin_session''))) = Some session
           \<and> user svc1 = user session \<and> walletAddress svc1 = walletAddress session
           \<and> sessionExpiry svc1 = sessionExpiry session \<and> userSalt svc1 = userSalt session
           \<and> zkProof svc1 = zkProof session \<and> maxEpoch svc1 = maxEpoch session"
    using p s by simp
  have imp: "svc0 = new_zk_service \<longrightarrow>
           zk_sendTransaction env svc1 recipient amountNum = (Send_failed NotAuthenticated, [])"
    using k by (simp add: zk_sendTransaction_def new_zk_service_def)
  from k ex imp show ?thesis
    by (intro conjI)
qed

theorem restored_session_cannot_send_witness:
  "zk_restoreSession (\<lambda>t. Some ex_zk_session) 500 (new_zk_service, ex_browser) =
     (True, new_zk_service\<lparr>user := Some ex_user, walletAddress := Some (lit ''0xabc''),
               sessionExpiry := Some 1000, userSalt := Some (lit ''7''),
               zkProof := Some ex_proof, maxEpoch := Some 15\<rparr>, ex_browser)
   \<and> zk_sendTransaction (ledger [coin_of ''0xc1'' 5000000000] (Inl (Thrown (lit ''rejected''))) 3)
        (new_zk_service\<lparr>user := Some ex_user, walletAddress := Some (lit ''0xabc''),
               sessionExpiry := Some 1000, userSalt := Some (lit ''7''),
               zkProof := Some ex_proof, maxEpoch := Some 15\<rparr>)
        ex_recipient (Fin 1 0)
     = (Send_failed NotAuthenticated, [])"
proof -
  have r: "zk_restoreSession (\<lambda>t. Some ex_zk_session) 500 (new_zk_service, ex_browser) =
     (True, new_zk_service\<lparr>user := Some ex_user, walletAddress := Some (lit ''0xabc''),
               sessionExpiry := Some 1000, userSalt := Some (lit ''7''),
               zkProof := Some ex_proof, maxEpoch := Some 15\<rparr>, ex_browser)"
    by (simp add: zk_restoreSession_def ex_browser_def absent_def lit_def expired_def
          ex_zk_session_def)
  have "zk_sendTransaction (ledger [coin_of ''0xc1'' 5000000000] (Inl (Thrown (lit ''rejected''))) 3)
        (new_zk_service\<lparr>user := Some ex_user, walletAddress := Some (lit ''0xabc''),
               sessionExpiry := Some 1000, userSalt := Some (lit ''7''),
               zkProof := Some ex_proof, maxEpoch := Some 15\<rparr>)
        ex_recipient (Fin 1 0)
     = (Send_failed NotAuthenticated, [])"
    using restored_session_cannot_send [OF r, THEN conjunct2, THEN conjunct2] by blast
  with r show ?thesis by (intro conjI)
qed

section \<open>The history reconciler\<close>

lemma findIndex_ge: "- 1 \<le> findIndex p xs"
  by (induction xs) (simp_all add: Let_def)

lemma findIndex_first:
  "(\<forall>y \<in> set pre. \<not> p y) \<Longrightarrow> p x \<Longrightarrow> findIndex p (pre @ x # post) = int (length pre)"
  by (induction pre) (simp_all add: Let_def)

lemma findIndex_earlier:
  "y \<in> set pre \<Longrightarrow> p y \<Longrightarrow> findIndex p (pre @ rest) < int (length pre)"
proof (induction pre)
  case Nil
  then show ?case by simp
next
  case (Cons z zs)
  show ?case
  proof (cases "p z")
    case True
    then show ?thesis by simp
  next
    case False
    with Cons.prems have "y \<in> set zs" by auto
    with Cons.IH Cons.prems have "findIndex p (zs @ rest) < int (length zs)" by simp
    with False show ?thesis by (simp add: Let_def)
  qed
qed

lemma keep_first_seen_set:
  "set s1 = set s2 \<Longrightarrow> keep_first s1 txs = keep_first s2 txs"
proof (induction txs arbitrary: s1 s2)
  case Nil
  then show ?case by simp
next
  case (Cons tx txs)
  have "set (tx_digest tx # s1) = set (tx_digest tx # s2)"
    using Cons.prems by simp
  then have "keep_first (tx_digest tx # s1) txs = keep_first (tx_digest tx # s2) txs"
    by (rule Cons.IH)
  moreover have "keep_first s1 txs = keep_first s2 txs"
    using Cons.prems by (rule Cons.IH)
  ultimately show ?case
    using Cons.prems by simp
qed

text \<open>The indexed filter of the source, started in the middle of the merged list.\<close>

lemma indexed_filter_keep_first:
  "map snd (filter (\<lambda>(index, tx). int index = findIndex (\<lambda>t. tx_digest t = tx_digest tx) (pre @ rest))
             (enumerate (length pre) rest))
   = keep_first (map tx_digest pre) rest"
proof (induction rest arbitrary: pre)
  case Nil
  then show ?case by simp
next
  case (Cons x rest)
  let ?same = "\<lambda>tx t. tx_digest t = tx_digest tx"
  have tail: "map snd (filter (\<lambda>(index, tx). int index = findIndex (?same tx) (pre @ x # rest))
             (enumerate (Suc (length pre)) rest))
      = keep_first (map tx_digest (pre @ [x])) rest"
    using Cons.IH [of "pre @ [x]"] by simp
  show ?case
  proof (cases "tx_digest x \<in> set (map tx_digest pre)")
    case True
    then obtain y where "y \<in> set pre" "tx_digest y = tx_digest x" by auto
    then have "findIndex (?same x) (pre @ x # rest) < int (length pre)"
      by (rule findIndex_earlier)
    then have head: "int (length pre) \<noteq> findIndex (?same x) (pre @ x # rest)"
      by simp
    have "set (map tx_digest (pre @ [x])) = set (map tx_digest pre)"
      using True by auto
    then have "keep_first (map tx_digest (pre @ [x])) rest = keep_first (map tx_digest pre) rest"
      by (rule keep_first_seen_set)
    with head tail True show ?thesis by simp
  next
    case False
    then have "\<forall>y \<in> set pre. \<not> ?same x y" by (force simp: image_iff)
    then have head: "findIndex (?same x) (pre @ x # rest) = int (length pre)"
      by (rule findIndex_first) simp
    have "set (map tx_digest (pre @ [x])) = set (tx_digest x # map tx_digest pre)"
      by auto
    then have "keep_first (map tx_digest (pre @ [x])) rest
        = keep_first (tx_digest x # map tx_digest pre) rest"
      by (rule keep_first_seen_set)
    with head tail False show ?thesis by simp
  qed
qed

lemma uniqueTxs_keep_first: "uniqueTxs allTxs = keep_first [] allTxs"
  using indexed_filter_keep_first [of "[]" allTxs] by (simp add: uniqueTxs_def)

lemma keep_first_digests:
  "set (map tx_digest (keep_first seen txs)) = set (map tx_digest txs) - set seen"
  by (induction txs arbitrary: seen) auto

lemma keep_first_distinct: "distinct (map tx_digest (keep_first seen txs))"
proof (induction txs arbitrary: seen)
  case Nil
  then show ?case by simp
next
  case (Cons tx txs)
  have "tx_digest tx \<notin> set (map tx_digest (keep_first (tx_digest tx # seen) txs))"
    unfolding keep_first_digests by simp
  with Cons.IH show ?case by simp
qed

lemma distinct_one_record:
  "distinct (map f xs) \<Longrightarrow> d \<in> set (map f xs) \<Longrightarrow> length (filter (\<lambda>h. f h = d) xs) = 1"
proof (induction xs)
  case Nil
  then show ?case by simp
next
  case (Cons x xs)
  show ?case
  proof (cases "f x = d")
    case True
    with Cons.prems have "\<forall>h \<in> set xs. f h \<noteq> d" by (force simp: image_iff)
    then have "filter (\<lambda>h. f h = d) xs = []" by (simp add: filter_empty_conv)
    with True show ?thesis by simp
  next
    case False
    with Cons show ?thesis by auto
  qed
qed

lemma entry_id_hybrid_entry: "map entry_id (map (hybrid_entry env a) txs) = map tx_digest txs"
  by (simp add: hybrid_entry_def)

text \<open>
  C6. When both queries answer, the history is made from the merged list of sent and
  received transactions in which a transaction is kept unless its id occurred earlier: the
  ids of the result are distinct, they are the ids of the two answers, every such id has
  exactly one record, and a record is \<open>Sent\<close> when the sender of its transaction is the
  account address and \<open>Received\<close> otherwise.
\<close>

theorem history_reconciled:
  assumes "walletAddress svc = Some a" and "a \<noteq> []"
    and "queryTransactionBlocks env (FromAddress a) = Inr sent"
    and "queryTransactionBlocks env (ToAddress a) = Inr received"
  shows "hybrid_getTransactionHistory env svc
           = map (hybrid_entry env a) (keep_first [] (sent @ received))
     \<and> distinct (map entry_id (hybrid_getTransactionHistory env svc))
     \<and> set (map entry_id (hybrid_getTransactionHistory env svc))
           = set (map tx_digest (sent @ received))
     \<and> (\<forall>tx \<in> set (sent @ received).
           length (filter (\<lambda>h. entry_id h = tx_digest tx) (hybrid_getTransactionHistory env svc)) = 1)
     \<and> (\<forall>tx. entry_id (hybrid_entry env a tx) = tx_digest tx
           \<and> entry_type (hybrid_entry env a tx)
                = (if tx_sender tx = Some a then Sent else Received))"
proof -
  let ?H = "hybrid_getTransactionHistory env svc"
  have eq: "?H = map (hybrid_entry env a) (keep_first [] (sent @ received))"
    using assms
    by (simp add: hybrid_getTransactionHistory_def hybrid_getTransactionHistory_try_def
          absent_def uniqueTxs_keep_first)
  have ids: "map entry_id ?H = map tx_digest (keep_first [] (sent @ received))"
    by (simp only: eq entry_id_hybrid_entry)
  have d: "distinct (map entry_id ?H)"
    by (simp only: ids keep_first_distinct)
  have s: "set (map entry_id ?H) = set (map tx_digest (sent @ received))"
    by (simp only: ids keep_first_digests) simp
  have one: "\<forall>tx \<in> set (sent @ received). length (filter (\<lambda>h. entry_id h = tx_digest tx) ?H) = 1"
  proof
    fix tx
    assume "tx \<in> set (sent @ received)"
    then have "tx_digest tx \<in> set (map entry_id ?H)"
      by (simp only: s) (simp add: image_iff, blast)
    with d show "length (filter (\<lambda>h. entry_id h = tx_digest tx) ?H) = 1"
      by (rule distinct_one_record)
  qed
  have t: "\<forall>tx. entry_id (hybrid_entry env a tx) = tx_digest tx
           \<and> entry_type (hybrid_entry env a tx)
                = (if tx_sender tx = Some a then Sent else Received)"
    by (simp add: hybrid_entry_def)
  from eq d s one t show ?thesis by (intro conjI)
qed

theorem history_reconciled_witness:
  "map (\<lambda>h. (entry_id h, entry_type h))
     (hybrid_getTransactionHistory
        (history_ledger [tx_of ''abc'' ''0xdef'', tx_of ''s1'' ''0xdef'']
                        [tx_of ''abc'' ''0xdef'', tx_of ''r1'' ''0xother''])
        ex_hybrid_service)
   = [(lit ''abc'', Sent), (lit ''s1'', Sent), (lit ''r1'', Received)]"
proof -
  let ?sent = "[tx_of ''abc'' ''0xdef'', tx_of ''s1'' ''0xdef'']"
  let ?received = "[tx_of ''abc'' ''0xdef'', tx_of ''r1'' ''0xother'']"
  have w: "walletAddress ex_hybrid_service = Some (lit ''0xdef'')" and ne: "lit ''0xdef'' \<noteq> []"
    by (simp_all add: ex_hybrid_service_def lit_def)
  have qs: "queryTransactionBlocks (history_ledger ?sent ?received) (FromAddress (lit ''0xdef''))
        = Inr ?sent"
    and qr: "queryTransactionBlocks (history_ledger ?sent ?received) (ToAddress (lit ''0xdef''))
        = Inr ?received"
    by (simp_all add: history_ledger_def)
  have k: "keep_first [] (?sent @ ?received)
      = [tx_of ''abc'' ''0xdef'', tx_of ''s1'' ''0xdef'', tx_of ''r1'' ''0xother'']"
    by (simp add: tx_of_def lit_def)
  from history_reconciled [OF w ne qs qr, THEN conjunct1]
  show ?thesis
    by (simp only: k) (simp add: hybrid_entry_def tx_of_def lit_def)
qed

section \<open>Balance\<close>

lemma totalBalance_loop_sum:
  "totalBalance_loop acc coins = acc + int (sum_list (map balance coins))"
  by (induction coins arbitrary: acc) simp_all

lemma zk_getBalance_answer:
  "walletAddress svc = Some a \<Longrightarrow> a \<noteq> [] \<Longrightarrow> getCoins env a = Inr coins \<Longrightarrow>
   zk_getBalance env svc =
     (toFixed 6 (js_div (Number_of_bigint (int (sum_list (map balance coins)))) 1000000000),
      [CallGetCoins a])"
  by (simp add: zk_getBalance_def zk_getBalance_try_def absent_def totalBalance_loop_sum)

lemma zk_getBalance_failure:
  "walletAddress svc = Some a \<Longrightarrow> a \<noteq> [] \<Longrightarrow> getCoins env a = Inl err \<Longrightarrow>
   zk_getBalance env svc = (lit ''0'', [CallGetCoins a])"
  by (simp add: zk_getBalance_def zk_getBalance_try_def absent_def)

lemma ex_zk_service_address:
  "walletAddress ex_zk_service = Some (lit ''0xabc'')" "lit ''0xabc'' \<noteq> []"
  "zkProof ex_zk_service = Some ex_proof" "ephemeralKeyPair ex_zk_service = Some (replicate 32 1)"
  "maxEpoch ex_zk_service = Some 15"
  by (simp_all add: ex_zk_service_def lit_def)

lemma ledger_answers:
  "getCoins (ledger coins answer e) a = Inr coins"
  "getBalance (ledger coins answer e) a = Inr (sum_list (map balance coins))"
  "getReferenceGasPrice (ledger coins answer e) = Inr 1000"
  "build (ledger coins answer e) tx = Inr [1, 2, 3]"
  "sign (ledger coins answer e) k b = Inr (lit ''sig'')"
  "getZkLoginSignature (ledger coins answer e) p m s = Inr (lit ''zksig'')"
  "executeTransactionBlock (ledger coins answer e) b s = answer"
  "epoch (ledger coins answer e) = e"
  "pure_u64 (ledger coins answer e) = u64_refusal"
  "pure_address (ledger coins answer e) = address_refusal"
  by (simp_all add: ledger_def)

text \<open>
  C5, as the code has it. \<open>getBalance\<close> of the proof-based service makes one \<open>getCoins\<close>
  query and adds the balances of the coins of its answer exactly, as integers; what it
  returns is that total converted to a double, divided by \<open>10 ^ 9\<close> and printed with six
  decimals. The direct-key service adds nothing: it prints, in the same way, the total
  that the ledger's \<open>getBalance\<close> reports. Each service reads its own address only.
\<close>

theorem balance_is_formatted_total:
  "(walletAddress zsvc = Some a \<and> a \<noteq> [] \<and> getCoins env a = Inr coins \<longrightarrow>
      zk_getBalance env zsvc =
        (toFixed 6 (js_div (Number_of_bigint (int (sum_list (map balance coins)))) 1000000000),
         [CallGetCoins a])
      \<and> totalBalance_loop 0 coins = int (sum_list (map balance coins)))
   \<and> (walletAddress hsvc = Some b \<and> b \<noteq> [] \<and> getBalance env b = Inr ledgerTotal \<longrightarrow>
      hybrid_getBalance env hsvc =
        toFixed 6 (js_div (Number_of_bigint (int ledgerTotal)) 1000000000))"
proof (intro conjI impI)
  assume "walletAddress zsvc = Some a \<and> a \<noteq> [] \<and> getCoins env a = Inr coins"
  then show "zk_getBalance env zsvc =
        (toFixed 6 (js_div (Number_of_bigint (int (sum_list (map balance coins)))) 1000000000),
         [CallGetCoins a])"
    by (simp add: zk_getBalance_answer)
next
  show "totalBalance_loop 0 coins = int (sum_list (map balance coins))"
    by (simp add: totalBalance_loop_sum)
next
  assume "walletAddress hsvc = Some b \<and> b \<noteq> [] \<and> getBalance env b = Inr ledgerTotal"
  then show "hybrid_getBalance env hsvc =
        toFixed 6 (js_div (Number_of_bigint (int ledgerTotal)) 1000000000)"
    by (simp add: hybrid_getBalance_def hybrid_getBalance_try_def absent_def Number_of_bigint_def)
qed

theorem balance_is_formatted_total_witness:
  "zk_getBalance (ledger [coin_of ''0xc1'' 2000000000, coin_of ''0xc2'' 3000000000]
       (Inl (Thrown (lit ''rejected''))) 3) ex_zk_service
     = (lit ''5.000000'', [CallGetCoins (lit ''0xabc'')])
   \<and> hybrid_getBalance (ledger [coin_of ''0xc1'' 2000000000, coin_of ''0xc2'' 3000000000]
       (Inl (Thrown (lit ''rejected''))) 3) ex_hybrid_service
     = lit ''5.000000''"
proof -
  let ?env = "ledger [coin_of ''0xc1'' 2000000000, coin_of ''0xc2'' 3000000000]
       (Inl (Thrown (lit ''rejected''))) 3"
  have h: "walletAddress ex_hybrid_service = Some (lit ''0xdef'')" "lit ''0xdef'' \<noteq> []"
    by (simp_all add: ex_hybrid_service_def lit_def)
  have s: "sum_list (map balance [coin_of ''0xc1'' 2000000000, coin_of ''0xc2'' 3000000000])
      = 5000000000"
    by (simp add: coin_of_def)
  have gc: "getCoins ?env (lit ''0xabc'')
      = Inr [coin_of ''0xc1'' 2000000000, coin_of ''0xc2'' 3000000000]"
    by (rule ledger_answers)
  have gb: "getBalance ?env (lit ''0xdef'')
      = Inr (sum_list (map balance [coin_of ''0xc1'' 2000000000, coin_of ''0xc2'' 3000000000]))"
    by (rule ledger_answers)
  note inst = balance_is_formatted_total [of ex_zk_service "lit ''0xabc''" ?env
      "[coin_of ''0xc1'' 2000000000, coin_of ''0xc2'' 3000000000]"
      ex_hybrid_service "lit ''0xdef''"
      "sum_list (map balance [coin_of ''0xc1'' 2000000000, coin_of ''0xc2'' 3000000000])"]
  from inst ex_zk_service_address(1,2) gc
  have z: "zk_getBalance ?env ex_zk_service =
        (toFixed 6 (js_div (Number_of_bigint (int (sum_list (map balance
            [coin_of ''0xc1'' 2000000000, coin_of ''0xc2'' 3000000000])))) 1000000000),
         [CallGetCoins (lit ''0xabc'')])"
    by blast
  from inst h gb
  have y: "hybrid_getBalance ?env ex_hybrid_service =
        toFixed 6 (js_div (Number_of_bigint (int (sum_list (map balance
            [coin_of ''0xc1'' 2000000000, coin_of ''0xc2'' 3000000000])))) 1000000000)"
    by blast
  from z y show ?thesis
    by (simp only: s) (simp add: toFixed_5_sui)
qed

text \<open>
  What is returned is not the sum: an address whose coins add up to 3 gets the text
  \<open>0.000000\<close>, the same as an address without coins.
\<close>

theorem balance_is_sum_counterexample:
  "sum_list (map balance [coin_of ''0xc1'' 1, coin_of ''0xc2'' 2]) = 3
   \<and> fst (zk_getBalance (ledger [coin_of ''0xc1'' 1, coin_of ''0xc2'' 2]
             (Inl (Thrown (lit ''rejected''))) 3) ex_zk_service) = lit ''0.000000''
   \<and> fst (zk_getBalance (ledger [] (Inl (Thrown (lit ''rejected''))) 3) ex_zk_service)
       = lit ''0.000000''"
proof -
  have s: "sum_list (map balance [coin_of ''0xc1'' 1, coin_of ''0xc2'' 2]) = 3"
    by (simp add: coin_of_def)
  have a: "zk_getBalance (ledger [coin_of ''0xc1'' 1, coin_of ''0xc2'' 2]
             (Inl (Thrown (lit ''rejected''))) 3) ex_zk_service
       = (lit ''0.000000'', [CallGetCoins (lit ''0xabc'')])"
    by (simp only: zk_getBalance_answer [OF ex_zk_service_address(1,2) ledger_answers(1)] s)
       (simp add: toFixed_3_mist)
  have b: "zk_getBalance (ledger [] (Inl (Thrown (lit ''rejected''))) 3) ex_zk_service
       = (lit ''0.000000'', [CallGetCoins (lit ''0xabc'')])"
    by (simp only: zk_getBalance_answer [OF ex_zk_service_address(1,2) ledger_answers(1)])
       (simp add: toFixed_0_mist)
  from s a b show ?thesis by simp
qed

section \<open>Read failures\<close>

lemma offline_answers:
  "getCoins offline a = Inl (Thrown (lit ''fetch failed''))"
  "getBalance offline a = Inl (Thrown (lit ''fetch failed''))"
  "queryTransactionBlocks offline f = Inl (Thrown (lit ''fetch failed''))"
  "toLocaleDateString offline t = lit ''1/1/1970''"
  by (simp_all add: offline_def)

lemma ex_hybrid_service_address:
  "walletAddress ex_hybrid_service = Some (lit ''0xdef'')" "lit ''0xdef'' \<noteq> []"
  by (simp_all add: ex_hybrid_service_def lit_def)

text \<open>
  C8, as the code has it. A failing ledger call is never passed on by a read: the balance
  of either service is then \<open>"0"\<close> and the history of the direct-key service is empty,
  while the history of the proof-based service is a list with one made-up record of a
  received faucet payment.
\<close>

theorem read_failures_recover:
  assumes "walletAddress zsvc = Some a" and "a \<noteq> []"
    and "walletAddress hsvc = Some b" and "b \<noteq> []"
  shows "(getCoins env a = Inl err \<longrightarrow> zk_getBalance env zsvc = (lit ''0'', [CallGetCoins a]))
     \<and> (getBalance env b = Inl err \<longrightarrow> hybrid_getBalance env hsvc = lit ''0'')
     \<and> (isl (queryTransactionBlocks env (FromAddress b))
          \<or> isl (queryTransactionBlocks env (ToAddress b))
          \<longrightarrow> hybrid_getTransactionHistory env hsvc = [])
     \<and> (queryTransactionBlocks env (FromOrToAddress a) = Inl err \<longrightarrow>
          zk_getTransactionHistory env now zsvc =
            [\<lparr>entry_id = lit ''mock_faucet_tx'', entry_type = Received,
              entry_amount = lit ''1.000'', entry_date = toLocaleDateString env now,
              entry_status = Success, entry_recipient = None,
              entry_sender = Some (lit ''Testnet Faucet'')\<rparr>])"
proof -
  have 1: "getCoins env a = Inl err \<longrightarrow> zk_getBalance env zsvc = (lit ''0'', [CallGetCoins a])"
    using assms(1,2) by (simp add: zk_getBalance_failure)
  have 2: "getBalance env b = Inl err \<longrightarrow> hybrid_getBalance env hsvc = lit ''0''"
    using assms(3,4) by (simp add: hybrid_getBalance_def hybrid_getBalance_try_def absent_def)
  have 3: "isl (queryTransactionBlocks env (FromAddress b))
          \<or> isl (queryTransactionBlocks env (ToAddress b))
          \<longrightarrow> hybrid_getTransactionHistory env hsvc = []"
    using assms(3,4)
    by (auto simp: hybrid_getTransactionHistory_def hybrid_getTransactionHistory_try_def
          absent_def isl_def split: sum.splits)
  have 4: "queryTransactionBlocks env (FromOrToAddress a) = Inl err \<longrightarrow>
          zk_getTransactionHistory env now zsvc =
            [\<lparr>entry_id = lit ''mock_faucet_tx'', entry_type = Received,
              entry_amount = lit ''1.000'', entry_date = toLocaleDateString env now,
              entry_status = Success, entry_recipient = None,
              entry_sender = Some (lit ''Testnet Faucet'')\<rparr>]"
    using assms(1,2)
    by (simp add: zk_getTransactionHistory_def zk_getTransactionHistory_try_def absent_def)
  from 1 2 3 4 show ?thesis by (intro conjI)
qed

theorem read_failures_recover_witness:
  "zk_getBalance offline ex_zk_service = (lit ''0'', [CallGetCoins (lit ''0xabc'')])
   \<and> hybrid_getBalance offline ex_hybrid_service = lit ''0''
   \<and> hybrid_getTransactionHistory offline ex_hybrid_service = []
   \<and> map entry_id (zk_getTransactionHistory offline 0 ex_zk_service) = [lit ''mock_faucet_tx'']"
proof -
  note inst = read_failures_recover [OF ex_zk_service_address(1,2) ex_hybrid_service_address,
      of offline "Thrown (lit ''fetch failed'')" 0]
  have 1: "zk_getBalance offline ex_zk_service = (lit ''0'', [CallGetCoins (lit ''0xabc'')])"
    using inst [THEN conjunct1] by (simp add: offline_answers)
  have 2: "hybrid_getBalance offline ex_hybrid_service = lit ''0''"
    using inst [THEN conjunct2, THEN conjunct1] by (simp add: offline_answers)
  have 3: "hybrid_getTransactionHistory offline ex_hybrid_service = []"
    using inst [THEN conjunct2, THEN conjunct2, THEN conjunct1] by (simp add: offline_answers)
  have 4: "map entry_id (zk_getTransactionHistory offline 0 ex_zk_service) = [lit ''mock_faucet_tx'']"
    using inst [THEN conjunct2, THEN conjunct2, THEN conjunct2] by (simp add: offline_answers)
  from 1 2 3 4 show ?thesis by (intro conjI)
qed

text \<open>
  The sentence of the specification does not hold as written for the history of the proof-based service: with a
  ledger that cannot be reached the answer is not the empty list.
\<close>

theorem read_failure_history_counterexample:
  "queryTransactionBlocks offline (FromOrToAddress (lit ''0xabc'')) = Inl (Thrown (lit ''fetch failed''))
   \<and> zk_getTransactionHistory offline 0 ex_zk_service \<noteq> []
   \<and> zk_getTransactionHistory offline 0 ex_zk_service =
       [\<lparr>entry_id = lit ''mock_faucet_tx'', entry_type = Received, entry_amount = lit ''1.000'',
         entry_date = lit ''1/1/1970'', entry_status = Success, entry_recipient = None,
         entry_sender = Some (lit ''Testnet Faucet'')\<rparr>]"
  by (simp add: zk_getTransactionHistory_def zk_getTransactionHistory_try_def absent_def
        ex_zk_service_address offline_answers)

section \<open>Sending\<close>

text \<open>\<open>sendTransaction\<close> of an authenticated instance, after its first check.\<close>

lemma zk_sendTransaction_authenticated:
  assumes "zkProof svc \<noteq> None" and "ephemeralKeyPair svc \<noteq> None"
    and "walletAddress svc = Some a" and "a \<noteq> []"
  shows "zk_sendTransaction env svc recipient amountNum =
     (let balanceNum = parseFloat (fst (zk_getBalance env svc));
          calls1 = snd (zk_getBalance env svc)
      in if is_zero balanceNum then (Send_failed NoSui, calls1)
         else if js_gt amountNum balanceNum then (Send_failed InsufficientBalance, calls1)
         else
           (case getCoins env a of
              Inl err \<Rightarrow> (Send_failed err, calls1 @ [CallGetCoins a])
            | Inr coins \<Rightarrow>
                if coins = [] then (Send_failed NoCoinsFound, calls1 @ [CallGetCoins a])
                else
                  (case BigInt_of_number (js_floor (js_mul amountNum 1000000000)) of
                     Inl err \<Rightarrow> (Send_failed err, calls1 @ [CallGetCoins a])
                   | Inr amountInMist \<Rightarrow>
                       (case select_payment amountInMist coins recipient of
                          Inl err \<Rightarrow> (Send_failed err, calls1 @ [CallGetCoins a])
                        | Inr cmds \<Rightarrow>
                            (case library_refusal env cmds of
                               Some err \<Rightarrow> (Send_failed err, calls1 @ [CallGetCoins a])
                             | None \<Rightarrow>
                                 (let (res, calls2) = build_and_send env svc a cmds
                                  in (res, calls1 @ [CallGetCoins a] @ calls2)))))))"
proof -
  from assms(1,2) obtain p k where "zkProof svc = Some p" and "ephemeralKeyPair svc = Some k"
    by auto
  with assms(3,4) show ?thesis
    by (simp add: zk_sendTransaction_def absent_def Let_def case_prod_beta)
qed

lemma zk_getBalance_calls:
  "walletAddress svc = Some a \<Longrightarrow> a \<noteq> [] \<Longrightarrow> snd (zk_getBalance env svc) = [CallGetCoins a]"
  by (cases "getCoins env a") (simp_all add: zk_getBalance_answer zk_getBalance_failure)




text \<open>
  Between two whole numbers of SUI the comparison is made on the six decimals that
  \<open>getBalance\<close> prints. One coin of 1999999600 MIST is printed as \<open>2.000000\<close> SUI, so a
  request of 2 SUI, which is 2000000000 MIST, passes the balance check and fails in the
  selector; three coins of 10 MIST are printed as \<open>0.000000\<close> SUI, and every request meets
  the check for a wallet without funds.
\<close>

lemma rounded_balance_example:
  "totalBalance_loop 0 [coin_of ''0xc1'' 1999999600] < 2000000000
   \<and> BigInt_of_number (js_floor (js_mul (Fin 2 0) 1000000000)) = Inr 2000000000
   \<and> zk_sendTransaction (ledger [coin_of ''0xc1'' 1999999600] (Inl (Thrown (lit ''rejected''))) 3)
        ex_zk_service ex_recipient (Fin 2 0)
      = (Send_failed MergeNotImplemented,
         [CallGetCoins (lit ''0xabc''), CallGetCoins (lit ''0xabc'')])"
proof -
  let ?coins = "[coin_of ''0xc1'' 1999999600]"
  let ?env = "ledger ?coins (Inl (Thrown (lit ''rejected''))) 3"
  have gc: "getCoins ?env (lit ''0xabc'') = Inr ?coins"
    by (rule ledger_answers)
  have s: "sum_list (map balance ?coins) = 1999999600"
    by (simp add: coin_of_def)
  have b: "zk_getBalance ?env ex_zk_service = (lit ''2.000000'', [CallGetCoins (lit ''0xabc'')])"
    by (simp only: zk_getBalance_answer [OF ex_zk_service_address(1,2) gc] s)
       (simp add: toFixed_rounds_up)
  have p: "zkProof ex_zk_service \<noteq> None" "ephemeralKeyPair ex_zk_service \<noteq> None"
    by (simp_all add: ex_zk_service_address)
  have sel: "select_payment 2000000000 ?coins ex_recipient = Inl MergeNotImplemented"
    by (simp add: select_payment_def coin_of_def)
  have send: "zk_sendTransaction ?env ex_zk_service ex_recipient (Fin 2 0)
      = (Send_failed MergeNotImplemented,
         [CallGetCoins (lit ''0xabc''), CallGetCoins (lit ''0xabc'')])"
    by (simp only: zk_sendTransaction_authenticated [OF p ex_zk_service_address(1,2)] b
          fst_conv snd_conv parseFloat_examples Let_def)
       (simp add: gc amountInMist_examples sel)
  have t: "totalBalance_loop 0 ?coins < 2000000000"
    by (simp add: coin_of_def)
  from t amountInMist_examples(2) send show ?thesis by (intro conjI)
qed

lemma no_sui_example:
  "zk_sendTransaction
     (ledger [coin_of ''0xc1'' 10, coin_of ''0xc2'' 10, coin_of ''0xc3'' 10]
        (Inl (Thrown (lit ''rejected''))) 3)
     ex_zk_service ex_recipient amountNum
   = (Send_failed NoSui, [CallGetCoins (lit ''0xabc'')])"
proof -
  let ?coins = "[coin_of ''0xc1'' 10, coin_of ''0xc2'' 10, coin_of ''0xc3'' 10]"
  let ?env = "ledger ?coins (Inl (Thrown (lit ''rejected''))) 3"
  have gc: "getCoins ?env (lit ''0xabc'') = Inr ?coins"
    by (rule ledger_answers)
  have s: "sum_list (map balance ?coins) = 30"
    by (simp add: coin_of_def)
  have f: "toFixed 6 (js_div (Number_of_bigint 30) 1000000000) = lit ''0.000000''"
    by (simp add: fl_eval toFixed_eval)
  have b: "zk_getBalance ?env ex_zk_service = (lit ''0.000000'', [CallGetCoins (lit ''0xabc'')])"
    by (simp only: zk_getBalance_answer [OF ex_zk_service_address(1,2) gc] s) (simp add: f)
  have p: "zkProof ex_zk_service \<noteq> None" "ephemeralKeyPair ex_zk_service \<noteq> None"
    by (simp_all add: ex_zk_service_address)
  show ?thesis
    by (simp only: zk_sendTransaction_authenticated [OF p ex_zk_service_address(1,2)] b
          fst_conv snd_conv parseFloat_examples Let_def)
       simp
qed
text \<open>
  Three coins of 10 SUI and a request of 25 SUI: the balance check passes and the send
  fails in the selector, although the coins add up to 30 SUI.
\<close>

lemma contiguous_funds_example:
  "zk_sendTransaction
     (ledger [coin_of ''0xc1'' 10000000000, coin_of ''0xc2'' 10000000000, coin_of ''0xc3'' 10000000000]
        (Inl (Thrown (lit ''rejected''))) 3)
     ex_zk_service ex_recipient (Fin 25 0)
   = (Send_failed MergeNotImplemented, [CallGetCoins (lit ''0xabc''), CallGetCoins (lit ''0xabc'')])"
proof -
  let ?coins = "[coin_of ''0xc1'' 10000000000, coin_of ''0xc2'' 10000000000,
                 coin_of ''0xc3'' 10000000000]"
  let ?env = "ledger ?coins (Inl (Thrown (lit ''rejected''))) 3"
  have gc: "getCoins ?env (lit ''0xabc'') = Inr ?coins"
    by (rule ledger_answers)
  have s: "sum_list (map balance ?coins) = 30000000000"
    by (simp add: coin_of_def)
  have b: "zk_getBalance ?env ex_zk_service = (lit ''30.000000'', [CallGetCoins (lit ''0xabc'')])"
    by (simp only: zk_getBalance_answer [OF ex_zk_service_address(1,2) gc] s)
       (simp add: toFixed_30_sui)
  have p: "zkProof ex_zk_service \<noteq> None" "ephemeralKeyPair ex_zk_service \<noteq> None"
    by (simp_all add: ex_zk_service_address)
  have sel: "select_payment 25000000000 ?coins ex_recipient = Inl MergeNotImplemented"
    by (simp add: select_payment_def coin_of_def)
  show ?thesis
    by (simp only: zk_sendTransaction_authenticated [OF p ex_zk_service_address(1,2)] b
          fst_conv snd_conv parseFloat_examples Let_def)
       (simp add: gc amountInMist_examples sel)
qed

section \<open>The proof window\<close>

lemma select_payment_coins: "select_payment amountInMist coins recipient = Inr cmds \<Longrightarrow> coins \<noteq> []"
  by (auto simp: select_payment_def)

lemma ex_recipient_accepted: "address_refusal ex_recipient = None"
  by (simp add: address_refusal_def ex_recipient_def repeat_4 lit_def hex_value_def Let_def)

lemma ex_signature:
  "createZkLoginSignature (ledger coins answer e) ex_zk_service txBytes = Inr (lit ''zksig'')"
  by (simp add: createZkLoginSignature_def ex_zk_service_address ledger_answers)

lemma sign_and_execute_rejected:
  "sign_and_execute (ledger coins (Inl err) e) ex_zk_service txBytes
     = (Send_failed SigningFailed, [CallExecute txBytes (lit ''zksig'')])"
  by (simp add: sign_and_execute_def ex_signature ledger_answers)

text \<open>
  C4, as the code has it. \<open>sendTransaction\<close> makes no proof-window check. A send of a
  session whose \<open>maxEpoch\<close> lies before the current epoch of the ledger, which passes the
  balance check and the coin selection and whose transaction is built and signed, makes
  the execution call, with \<open>maxEpoch\<close> inside the signature. Its result is the success
  result when the ledger answers with the status \<open>success\<close>, and the one signing failure
  otherwise: when the ledger rejects the transaction, too.
\<close>

theorem send_executes_past_maxEpoch:
  assumes "zkProof svc = Some zkp" and "ephemeralKeyPair svc = Some keyPair"
    and "walletAddress svc = Some a" and "a \<noteq> []"
    and "maxEpoch svc = Some m" and "m < epoch env"
    and "\<not> is_zero (parseFloat (fst (zk_getBalance env svc)))"
    and "\<not> js_gt amountNum (parseFloat (fst (zk_getBalance env svc)))"
    and "getCoins env a = Inr coins"
    and "BigInt_of_number (js_floor (js_mul amountNum 1000000000)) = Inr amountInMist"
    and "select_payment amountInMist coins recipient = Inr cmds"
    and "library_refusal env cmds = None"
    and "getReferenceGasPrice env = Inr price"
    and "build env \<lparr>commands = cmds, sender = Some a, gasPrice = Some price,
                     gasBudget = Some 10000000\<rparr> = Inr txBytes"
    and "sign env keyPair txBytes = Inr ephemeralSignature"
    and "getZkLoginSignature env zkp (Some m) ephemeralSignature = Inr zkLoginSignature"
  shows "snd (zk_sendTransaction env svc recipient amountNum) =
           [CallGetCoins a, CallGetCoins a, CallGetReferenceGasPrice,
            CallBuild \<lparr>commands = cmds, sender = Some a, gasPrice = Some price,
                       gasBudget = Some 10000000\<rparr>,
            CallExecute txBytes zkLoginSignature]
     \<and> fst (zk_sendTransaction env svc recipient amountNum) =
           (case executeTransactionBlock env txBytes zkLoginSignature of
              Inl err \<Rightarrow> Send_failed SigningFailed
            | Inr result \<Rightarrow>
                if status result = Some (lit ''success'')
                then Sent_ok (digest result) (toFixed 6 (totalGas (gasUsed result)))
                else Send_failed SigningFailed)"
proof -
  have auth: "zkProof svc \<noteq> None" "ephemeralKeyPair svc \<noteq> None"
    using assms(1,2) by simp_all
  have calls1: "snd (zk_getBalance env svc) = [CallGetCoins a]"
    using assms(3,4) by (rule zk_getBalance_calls)
  have coins: "coins \<noteq> []"
    using assms(11) by (rule select_payment_coins)
  have sig: "createZkLoginSignature env svc txBytes = Inr zkLoginSignature"
    using assms(1,2,5,15,16) by (simp add: createZkLoginSignature_def)
  have exec: "sign_and_execute env svc txBytes =
      (case executeTransactionBlock env txBytes zkLoginSignature of
         Inl err \<Rightarrow> Send_failed SigningFailed
       | Inr result \<Rightarrow>
           if status result = Some (lit ''success'')
           then Sent_ok (digest result) (toFixed 6 (totalGas (gasUsed result)))
           else Send_failed SigningFailed,
       [CallExecute txBytes zkLoginSignature])"
    by (simp add: sign_and_execute_def sig split: sum.splits)
  have bs: "build_and_send env svc a cmds =
      (fst (sign_and_execute env svc txBytes),
       [CallGetReferenceGasPrice,
        CallBuild \<lparr>commands = cmds, sender = Some a, gasPrice = Some price,
                   gasBudget = Some 10000000\<rparr>,
        CallExecute txBytes zkLoginSignature])"
    using assms(13,14) by (simp add: build_and_send_def exec Let_def)
  have send: "zk_sendTransaction env svc recipient amountNum =
      (fst (sign_and_execute env svc txBytes),
       [CallGetCoins a, CallGetCoins a, CallGetReferenceGasPrice,
        CallBuild \<lparr>commands = cmds, sender = Some a, gasPrice = Some price,
                   gasBudget = Some 10000000\<rparr>,
        CallExecute txBytes zkLoginSignature])"
    using assms(7-12) coins
    by (simp add: zk_sendTransaction_authenticated [OF auth assms(3,4)] calls1 bs Let_def)
  show ?thesis
    by (simp add: send exec)
qed

text \<open>
  A session with \<open>maxEpoch = 15\<close> in epoch 16: one coin of 2 SUI is sent whole, the
  execution call is made, and the rejection of the ledger comes back as the signing
  failure.
\<close>

theorem send_executes_past_maxEpoch_witness:
  "maxEpoch ex_zk_service = Some 15
   \<and> 15 < epoch (ledger [coin_of ''0xc1'' 2000000000] (Inl (Thrown (lit ''rejected''))) 16)
   \<and> snd (zk_sendTransaction (ledger [coin_of ''0xc1'' 2000000000] (Inl (Thrown (lit ''rejected''))) 16)
        ex_zk_service ex_recipient (Fin 2 0))
      = [CallGetCoins (lit ''0xabc''), CallGetCoins (lit ''0xabc''), CallGetReferenceGasPrice,
         CallBuild \<lparr>commands = [TransferObjects [Object (lit ''0xc1'')] ex_recipient],
                    sender = Some (lit ''0xabc''), gasPrice = Some 1000,
                    gasBudget = Some 10000000\<rparr>,
         CallExecute [1, 2, 3] (lit ''zksig'')]
   \<and> fst (zk_sendTransaction (ledger [coin_of ''0xc1'' 2000000000] (Inl (Thrown (lit ''rejected''))) 16)
        ex_zk_service ex_recipient (Fin 2 0))
      = Send_failed SigningFailed"
proof -
  let ?coins = "[coin_of ''0xc1'' 2000000000]"
  let ?env = "ledger ?coins (Inl (Thrown (lit ''rejected''))) 16"
  let ?cmds = "[TransferObjects [Object (lit ''0xc1'')] ex_recipient]"
  have gc: "getCoins ?env (lit ''0xabc'') = Inr ?coins"
    by (rule ledger_answers)
  have s: "sum_list (map balance ?coins) = 2000000000"
    by (simp add: coin_of_def)
  have f: "toFixed 6 (js_div (Number_of_bigint 2000000000) 1000000000) = lit ''2.000000''"
    by (simp add: fl_eval toFixed_eval)
  have b: "fst (zk_getBalance ?env ex_zk_service) = lit ''2.000000''"
    by (simp only: zk_getBalance_answer [OF ex_zk_service_address(1,2) gc] s) (simp add: f)
  have nz: "\<not> is_zero (parseFloat (fst (zk_getBalance ?env ex_zk_service)))"
    and le: "\<not> js_gt (Fin 2 0) (parseFloat (fst (zk_getBalance ?env ex_zk_service)))"
    by (simp_all only: b parseFloat_examples) simp_all
  have e: "15 < epoch ?env"
    by (simp add: ledger_answers)
  have sel: "select_payment 2000000000 ?coins ex_recipient = Inr ?cmds"
    by (simp add: select_payment_def payment_commands_def coin_of_def)
  have lib: "library_refusal ?env ?cmds = None"
    by (simp add: library_refusal_def ledger_answers ex_recipient_accepted)
  have price: "getReferenceGasPrice ?env = Inr 1000"
    and built: "build ?env \<lparr>commands = ?cmds, sender = Some (lit ''0xabc''), gasPrice = Some 1000,
                            gasBudget = Some 10000000\<rparr> = Inr [1, 2, 3]"
    and signed: "sign ?env (replicate 32 1) [1, 2, 3] = Inr (lit ''sig'')"
    and assembled: "getZkLoginSignature ?env ex_proof (Some 15) (lit ''sig'') = Inr (lit ''zksig'')"
    and rejected: "executeTransactionBlock ?env [1, 2, 3] (lit ''zksig'') = Inl (Thrown (lit ''rejected''))"
    by (rule ledger_answers)+
  note run = send_executes_past_maxEpoch [OF ex_zk_service_address(3,4,1,2,5) e nz le gc
      amountInMist_examples(2) sel lib price built signed assembled]
  from run have calls: "snd (zk_sendTransaction ?env ex_zk_service ex_recipient (Fin 2 0))
      = [CallGetCoins (lit ''0xabc''), CallGetCoins (lit ''0xabc''), CallGetReferenceGasPrice,
         CallBuild \<lparr>commands = ?cmds, sender = Some (lit ''0xabc''), gasPrice = Some 1000,
                    gasBudget = Some 10000000\<rparr>,
         CallExecute [1, 2, 3] (lit ''zksig'')]"
    by (rule conjunct1)
  from run have "fst (zk_sendTransaction ?env ex_zk_service ex_recipient (Fin 2 0)) =
      (case executeTransactionBlock ?env [1, 2, 3] (lit ''zksig'') of
         Inl err \<Rightarrow> Send_failed SigningFailed
       | Inr result \<Rightarrow>
           if status result = Some (lit ''success'')
           then Sent_ok (digest result) (toFixed 6 (totalGas (gasUsed result)))
           else Send_failed SigningFailed)"
    by (rule conjunct2)
  then have res: "fst (zk_sendTransaction ?env ex_zk_service ex_recipient (Fin 2 0))
      = Send_failed SigningFailed"
    by (simp only: rejected sum.case)
  from ex_zk_service_address(5) e calls res show ?thesis
    by (intro conjI)
qed

text \<open>
  The sentence of the specification does not hold as written. The session has
  \<open>maxEpoch = 15\<close> and the ledger is in epoch 100: the send goes all the way to the
  execution call, and the rejection of the ledger comes back as the signing failure.
\<close>

theorem proof_window_counterexample:
  "maxEpoch ex_zk_service = Some 15
   \<and> epoch (ledger [coin_of ''0xc1'' 5000000000] (Inl (Thrown (lit ''rejected''))) 100) = 100
   \<and> zk_sendTransaction (ledger [coin_of ''0xc1'' 5000000000] (Inl (Thrown (lit ''rejected''))) 100)
        ex_zk_service ex_recipient (Fin 1 0)
      = (Send_failed SigningFailed,
         [CallGetCoins (lit ''0xabc''), CallGetCoins (lit ''0xabc''), CallGetReferenceGasPrice,
          CallBuild \<lparr>commands = [SplitCoins (Object (lit ''0xc1'')) [1000000000],
                                    TransferObjects [Result 0] ex_recipient],
                       sender = Some (lit ''0xabc''), gasPrice = Some 1000,
                       gasBudget = Some 10000000\<rparr>,
          CallExecute [1, 2, 3] (lit ''zksig'')])"
proof -
  let ?coins = "[coin_of ''0xc1'' 5000000000]"
  let ?env = "ledger ?coins (Inl (Thrown (lit ''rejected''))) 100"
  let ?cmds = "[SplitCoins (Object (lit ''0xc1'')) [1000000000],
                TransferObjects [Result 0] ex_recipient]"
  have gc: "getCoins ?env (lit ''0xabc'') = Inr ?coins"
    by (rule ledger_answers)
  have s: "sum_list (map balance ?coins) = 5000000000"
    by (simp add: coin_of_def)
  have b: "zk_getBalance ?env ex_zk_service = (lit ''5.000000'', [CallGetCoins (lit ''0xabc'')])"
    by (simp only: zk_getBalance_answer [OF ex_zk_service_address(1,2) gc] s)
       (simp add: toFixed_5_sui)
  have p: "zkProof ex_zk_service \<noteq> None" "ephemeralKeyPair ex_zk_service \<noteq> None"
    by (simp_all add: ex_zk_service_address)
  have sel: "select_payment 1000000000 ?coins ex_recipient = Inr ?cmds"
    by (simp add: select_payment_def payment_commands_def coin_of_def)
  have lib: "library_refusal ?env ?cmds = None"
    by (simp add: library_refusal_def ledger_answers ex_recipient_accepted u64_refusal_def)
  have bs: "build_and_send ?env ex_zk_service (lit ''0xabc'') ?cmds
      = (Send_failed SigningFailed,
         [CallGetReferenceGasPrice,
          CallBuild \<lparr>commands = ?cmds,
                       sender = Some (lit ''0xabc''), gasPrice = Some 1000,
                       gasBudget = Some 10000000\<rparr>,
          CallExecute [1, 2, 3] (lit ''zksig'')])"
    by (simp add: build_and_send_def ledger_answers sign_and_execute_rejected)
  have send: "zk_sendTransaction ?env ex_zk_service ex_recipient (Fin 1 0)
      = (Send_failed SigningFailed,
         [CallGetCoins (lit ''0xabc''), CallGetCoins (lit ''0xabc''), CallGetReferenceGasPrice,
          CallBuild \<lparr>commands = ?cmds,
                       sender = Some (lit ''0xabc''), gasPrice = Some 1000,
                       gasBudget = Some 10000000\<rparr>,
          CallExecute [1, 2, 3] (lit ''zksig'')])"
    by (simp only: zk_sendTransaction_authenticated [OF p ex_zk_service_address(1,2)] b
          fst_conv snd_conv parseFloat_examples Let_def)
       (simp add: gc amountInMist_examples sel lib bs)
  from ex_zk_service_address(5) ledger_answers(8) send show ?thesis
    by (intro conjI)
qed

text \<open>
  A recipient that is not an address is refused by the Sui library when the payment is
  put together: the send fails with the error of the library after the two coin queries,
  before the gas price is asked for.
\<close>

lemma refused_recipient_example:
  "zk_sendTransaction (ledger [coin_of ''0xc1'' 5000000000] (Inl (Thrown (lit ''rejected''))) 100)
        ex_zk_service (lit ''0xr'') (Fin 1 0)
      = (Send_failed (Thrown (lit ''Invalid Sui address 0xr'')),
         [CallGetCoins (lit ''0xabc''), CallGetCoins (lit ''0xabc'')])"
proof -
  let ?coins = "[coin_of ''0xc1'' 5000000000]"
  let ?env = "ledger ?coins (Inl (Thrown (lit ''rejected''))) 100"
  let ?cmds = "[SplitCoins (Object (lit ''0xc1'')) [1000000000],
                TransferObjects [Result 0] (lit ''0xr'')]"
  have gc: "getCoins ?env (lit ''0xabc'') = Inr ?coins"
    by (rule ledger_answers)
  have s: "sum_list (map balance ?coins) = 5000000000"
    by (simp add: coin_of_def)
  have b: "zk_getBalance ?env ex_zk_service = (lit ''5.000000'', [CallGetCoins (lit ''0xabc'')])"
    by (simp only: zk_getBalance_answer [OF ex_zk_service_address(1,2) gc] s)
       (simp add: toFixed_5_sui)
  have p: "zkProof ex_zk_service \<noteq> None" "ephemeralKeyPair ex_zk_service \<noteq> None"
    by (simp_all add: ex_zk_service_address)
  have sel: "select_payment 1000000000 ?coins (lit ''0xr'') = Inr ?cmds"
    by (simp add: select_payment_def payment_commands_def coin_of_def)
  have lib: "library_refusal ?env ?cmds = Some (Thrown (lit ''Invalid Sui address 0xr''))"
    by (simp add: library_refusal_def ledger_answers u64_refusal_def address_refusal_def
          lit_def hex_value_def Let_def)
  show ?thesis
    by (simp only: zk_sendTransaction_authenticated [OF p ex_zk_service_address(1,2)] b
          fst_conv snd_conv parseFloat_examples Let_def)
       (simp add: gc amountInMist_examples sel lib)
qed
end
